theory Spec2Isabelle
  imports Main
begin

section \<open>The world around \<open>eng.py\<close>\<close>

text \<open>
  \<open>eng.py\<close> is a Tkinter front end over a text-to-speech player. The player owns up to
  two temporary files and drives the one \<open>pygame.mixer\<close> of the process. The model
  keeps exactly that: the set of paths that exist on storage, the state of the mixer, and
  the four fields of a \<open>TTSPlayer\<close>.

  Everything the script imports is outside the repository. Its behaviour enters the model
  in two ways. What is fixed for a run of the program (which optional imports succeeded,
  whether the platform locks open files) is the record \<open>env\<close>. What an external call
  answers at one call site (the name \<open>tempfile.mkstemp\<close> picks, whether gTTS reaches
  its server, whether the sound device opens, whether the mixer can decode a file) is an
  argument of the operation that makes the call, so every theorem quantifies over it.

  Assumptions about the libraries, all of them visible in the definitions below:
  \<^item> a \<open>pygame.mixer.music\<close> function raises exactly when the mixer is not initialised,
    \<open>load\<close> also when it is given \<open>None\<close> (TypeError), when the file is missing
    (FileNotFoundError) or when it cannot be decoded, \<open>play\<close> also when nothing is
    loaded;
  \<^item> \<open>get_busy\<close> is false while the music is paused (pygame 2.0.1 and later);
  \<^item> a loaded file stays open until \<open>pygame.mixer.quit\<close> or the next successful
    \<open>load\<close>; on a platform with exclusive locks \<open>os.remove\<close> of an open file raises;
  \<^item> \<open>os.remove\<close> raises in no other case than a missing or locked file, and
    \<open>os.close\<close> of a descriptor just returned by \<open>mkstemp\<close> does not raise.
\<close>

datatype error =
    PygameRequired          \<comment> \<open>RuntimeError('pygame is required for audio playback...')\<close>
  | AudioDeviceInitFailed   \<comment> \<open>RuntimeError('Failed to initialize audio device: ...')\<close>
  | GTTSNotAvailable        \<comment> \<open>RuntimeError('gTTS not available...')\<close>
  | GTTSGenerationFailed    \<comment> \<open>RuntimeError('gTTS generation failed: ...')\<close>
  | NoAudioFile             \<comment> \<open>RuntimeError('No audio file to play. Generate it first.')\<close>
  | PlaybackFailed          \<comment> \<open>RuntimeError('Playback failed: ...')\<close>
  | MixerError              \<comment> \<open>pygame.error or TypeError raised inside pygame.mixer\<close>
  | OSError                 \<comment> \<open>FileNotFoundError / PermissionError / FileExistsError\<close>
  | RequestFailed           \<comment> \<open>requests.get raised (timeout, no connection)\<close>
  | BadJSON                 \<comment> \<open>resp.json() raised\<close>
  | AttributeError          \<comment> \<open>\<open>.get\<close> on a value that is not a dict\<close>
  | TypeError               \<comment> \<open>subscript of a value that has none\<close>
  | IndexError              \<comment> \<open>\<open>[0]\<close> of an empty list or string\<close>
  | KeyError                \<comment> \<open>\<open>[0]\<close> of a dict\<close>

text \<open>The module-level facts of lines 22-47 and the platform.\<close>

record env =
  pyttsx3_avail :: bool       \<comment> \<open>\<open>pyttsx3 is not None\<close>\<close>
  gTTS_avail :: bool          \<comment> \<open>\<open>gTTS is not None\<close>\<close>
  AudioSegment_avail :: bool  \<comment> \<open>\<open>AudioSegment is not None\<close>\<close>
  exclusive_locks :: bool     \<comment> \<open>an open file cannot be removed (Windows)\<close>

text \<open>
  The mixer is either not initialised, or initialised with: the file it has loaded, whether
  a stream was started and has neither been stopped nor run out, and whether it is paused.
\<close>

datatype mixer = NotInit | Init "string option" bool bool

text \<open>
  \<open>pygame w = None\<close> is \<open>import pygame\<close> having failed (\<open>pygame = None\<close>,
  \<open>PYGAME_AVAILABLE = False\<close>; the script sets both together). \<open>loads\<close> counts the
  calls of \<open>pygame.mixer.music.load\<close> that completed; no code reads it, it is there so
  that "without loading the file again" can be stated.
\<close>

record world =
  files :: "string set"
  pygame :: "mixer option"
  loads :: nat

record TTSPlayer =
  audio_file :: "string option"
  raw_mp3 :: "string option"     \<comment> \<open>\<open>self._raw_mp3\<close>\<close>
  is_playing :: bool
  paused :: bool

subsection \<open>Storage\<close>

definition held :: "world \<Rightarrow> string \<Rightarrow> bool" where
  "held w f = (case pygame w of Some (Init (Some g) _ _) \<Rightarrow> g = f | _ \<Rightarrow> False)"

definition os_remove :: "env \<Rightarrow> string \<Rightarrow> world \<Rightarrow> error + world" where
  "os_remove e f w =
     (if f \<notin> files w then Inl OSError
      else if exclusive_locks e \<and> held w f then Inl OSError
      else Inr (w\<lparr>files := files w - {f}\<rparr>))"

text \<open>
  \<open>tempfile.mkstemp\<close> followed by \<open>os.close\<close>. The argument is the name the call
  settles on, \<open>None\<close> when it raises. \<open>mkstemp\<close> opens with \<open>O_EXCL\<close> and tries
  other names when one is taken, so a name that already exists is never its answer, nor
  is the empty path: the model treats such an argument as the call giving up
  (FileExistsError).
\<close>

definition mkstemp :: "string option \<Rightarrow> world \<Rightarrow> (error + string) \<times> world" where
  "mkstemp pick w =
     (case pick of
        None \<Rightarrow> (Inl OSError, w)
      | Some f \<Rightarrow> if f = [] \<or> f \<in> files w then (Inl OSError, w)
                  else (Inr f, w\<lparr>files := insert f (files w)\<rparr>))"

text \<open>
  The idiom of lines 110-114 and 223-227:
  \<^verbatim>\<open>try: if p and os.path.exists(p): os.remove(p)  except Exception: pass\<close>
\<close>

definition remove_if_exists :: "env \<Rightarrow> string \<Rightarrow> world \<Rightarrow> world" where
  "remove_if_exists e f w =
     (if f \<noteq> [] \<and> f \<in> files w
      then (case os_remove e f w of Inl _ \<Rightarrow> w | Inr w' \<Rightarrow> w')
      else w)"

subsection \<open>pygame.mixer\<close>

definition get_init :: "mixer \<Rightarrow> bool" where
  "get_init m = (case m of NotInit \<Rightarrow> False | Init _ _ _ \<Rightarrow> True)"

definition mixer_quit :: "world \<Rightarrow> world" where
  "mixer_quit w = (case pygame w of None \<Rightarrow> w | Some _ \<Rightarrow> w\<lparr>pygame := Some NotInit\<rparr>)"

definition music_stop :: "world \<Rightarrow> error + world" where
  "music_stop w =
     (case pygame w of
        Some (Init l _ _) \<Rightarrow> Inr (w\<lparr>pygame := Some (Init l False False)\<rparr>)
      | _ \<Rightarrow> Inl MixerError)"

definition music_load :: "bool \<Rightarrow> string option \<Rightarrow> world \<Rightarrow> error + world" where
  "music_load decodes arg w =
     (case pygame w of
        Some (Init _ _ _) \<Rightarrow>
          (case arg of
             None \<Rightarrow> Inl MixerError
           | Some f \<Rightarrow>
               if f \<notin> files w then Inl OSError
               else if decodes
               then Inr (w\<lparr>pygame := Some (Init (Some f) False False), loads := Suc (loads w)\<rparr>)
               else Inl MixerError)
      | _ \<Rightarrow> Inl MixerError)"

definition music_play :: "world \<Rightarrow> error + world" where
  "music_play w =
     (case pygame w of
        Some (Init (Some f) _ _) \<Rightarrow> Inr (w\<lparr>pygame := Some (Init (Some f) True False)\<rparr>)
      | _ \<Rightarrow> Inl MixerError)"

definition music_pause :: "world \<Rightarrow> error + world" where
  "music_pause w =
     (case pygame w of
        Some (Init l pl _) \<Rightarrow> Inr (w\<lparr>pygame := Some (Init l pl True)\<rparr>)
      | _ \<Rightarrow> Inl MixerError)"

definition music_unpause :: "world \<Rightarrow> error + world" where
  "music_unpause w =
     (case pygame w of
        Some (Init l pl _) \<Rightarrow> Inr (w\<lparr>pygame := Some (Init l pl False)\<rparr>)
      | _ \<Rightarrow> Inl MixerError)"

definition music_get_busy :: "world \<Rightarrow> error + bool" where
  "music_get_busy w =
     (case pygame w of
        Some (Init _ pl ps) \<Rightarrow> Inr (pl \<and> \<not> ps)
      | _ \<Rightarrow> Inl MixerError)"

text \<open>The stream running out by itself: not a call of the program, an event of the device.\<close>

definition track_ends :: "world \<Rightarrow> world" where
  "track_ends w =
     (case pygame w of
        Some (Init l _ _) \<Rightarrow> w\<lparr>pygame := Some (Init l False False)\<rparr>
      | _ \<Rightarrow> w)"

text \<open>
  \<open>ensure_pygame\<close>, lines 51-59. \<open>dev\<close> is whether \<open>pygame.mixer.init()\<close> would
  succeed now; it is consulted only when the mixer is not initialised.
\<close>

definition ensure_pygame :: "bool \<Rightarrow> world \<Rightarrow> error + world" where
  "ensure_pygame dev w =
     (case pygame w of
        None \<Rightarrow> Inl PygameRequired
      | Some m \<Rightarrow>
          if \<not> get_init m
          then (if dev then Inr (w\<lparr>pygame := Some (Init None False False)\<rparr>)
                else Inl AudioDeviceInitFailed)
          else Inr w)"

section \<open>TTSPlayer\<close>

text \<open>\<open>__init__\<close>, lines 69-74 (the lock has no counterpart in a sequential model).\<close>

definition TTSPlayer_init :: TTSPlayer where
  "TTSPlayer_init = \<lparr>audio_file = None, raw_mp3 = None, is_playing = False, paused = False\<rparr>"

text \<open>
  \<open>_stop_and_cleanup_playback\<close>, lines 203-213: with an initialised mixer, stop and quit,
  any exception swallowed.
\<close>

definition stop_and_cleanup_playback :: "TTSPlayer \<times> world \<Rightarrow> TTSPlayer \<times> world" where
  "stop_and_cleanup_playback s =
     (case s of (p, w) \<Rightarrow>
        (case pygame w of
           None \<Rightarrow> (p, w)
         | Some m \<Rightarrow>
             if get_init m
             then (case music_stop w of
                     Inl _ \<Rightarrow> (p, w)
                   | Inr w1 \<Rightarrow> (p, mixer_quit w1))
             else (p, w)))"

text \<open>\<open>cleanup\<close>, lines 215-231. A path is listed when the field is truthy.\<close>

definition tracked_paths :: "TTSPlayer \<Rightarrow> string list" where
  "tracked_paths p =
     (case audio_file p of None \<Rightarrow> [] | Some f \<Rightarrow> if f \<noteq> [] then [f] else []) @
     (case raw_mp3 p of None \<Rightarrow> [] | Some f \<Rightarrow> if f \<noteq> [] then [f] else [])"

fun remove_paths :: "env \<Rightarrow> string list \<Rightarrow> world \<Rightarrow> world" where
  "remove_paths e [] w = w"
| "remove_paths e (f # fs) w = remove_paths e fs (remove_if_exists e f w)"

definition cleanup :: "env \<Rightarrow> TTSPlayer \<times> world \<Rightarrow> TTSPlayer \<times> world" where
  "cleanup e s =
     (case s of (p, w) \<Rightarrow>
        (p\<lparr>audio_file := None, raw_mp3 := None, is_playing := False, paused := False\<rparr>,
         remove_paths e (tracked_paths p) w))"

subsection \<open>generate\<close>

text \<open>
  What the external calls of one \<open>generate\<close> answer: the three names \<open>mkstemp\<close> would
  pick, and whether the offline engine, the gTTS request and the pydub conversion go
  through for the given text and language.
\<close>

record gen_io =
  pick_offline_wav :: "string option"   \<comment> \<open>line 88\<close>
  pyttsx3_ok :: "string \<Rightarrow> bool"        \<comment> \<open>lines 90-92, of the text\<close>
  pick_mp3 :: "string option"           \<comment> \<open>line 103\<close>
  gtts_ok :: "string \<Rightarrow> string \<Rightarrow> bool" \<comment> \<open>lines 105-106, of text and lang\<close>
  pick_wav :: "string option"           \<comment> \<open>line 120\<close>
  convert_ok :: bool                    \<comment> \<open>lines 122-123\<close>

definition startswith :: "string \<Rightarrow> string \<Rightarrow> bool" where
  "startswith s pre = (take (length pre) s = pre)"

text \<open>Lines 136-138: keep the MP3 as the final file.\<close>

definition keep_mp3 :: "TTSPlayer \<times> world \<Rightarrow> (error + string option) \<times> TTSPlayer \<times> world" where
  "keep_mp3 s = (case s of (p, w) \<Rightarrow> (Inr (raw_mp3 p), p\<lparr>audio_file := raw_mp3 p\<rparr>, w))"

text \<open>
  Lines 117-138. The value returned is \<open>self.audio_file\<close>, an optional path as the field
  is. A failure of \<open>mkstemp\<close>, \<open>from_file\<close> or \<open>export\<close> lands in the handler of line
  132, which only prints; a WAV file already created by \<open>mkstemp\<close> stays where it is.
\<close>

definition convert_stage ::
  "env \<Rightarrow> gen_io \<Rightarrow> TTSPlayer \<times> world \<Rightarrow> (error + string option) \<times> TTSPlayer \<times> world" where
  "convert_stage e io s =
     (case s of (p, w) \<Rightarrow>
        if AudioSegment_avail e
        then (case mkstemp (pick_wav io) w of
                (Inl _, w1) \<Rightarrow> keep_mp3 (p, w1)
              | (Inr wav, w1) \<Rightarrow>
                  if convert_ok io
                  then (let p1 = p\<lparr>audio_file := Some wav\<rparr>;
                            w2 = (case raw_mp3 p1 of
                                    None \<Rightarrow> w1
                                  | Some mp3 \<Rightarrow>
                                      (case os_remove e mp3 w1 of Inl _ \<Rightarrow> w1 | Inr w' \<Rightarrow> w'));
                            p2 = p1\<lparr>raw_mp3 := None\<rparr>
                        in (Inr (audio_file p2), p2, w2))
                  else keep_mp3 (p, w1))
        else keep_mp3 (p, w))"

text \<open>
  Lines 98-115. When \<open>mkstemp\<close> raises, \<open>mp3_path\<close> is not among the locals and nothing
  is removed; when a later call raises, the file is removed if it exists.
\<close>

definition gtts_stage ::
  "env \<Rightarrow> gen_io \<Rightarrow> string \<Rightarrow> string \<Rightarrow> TTSPlayer \<times> world
     \<Rightarrow> (error + string option) \<times> TTSPlayer \<times> world" where
  "gtts_stage e io text lang s =
     (case s of (p, w) \<Rightarrow>
        if \<not> gTTS_avail e then (Inl GTTSNotAvailable, p, w)
        else (case mkstemp (pick_mp3 io) w of
                (Inl _, w1) \<Rightarrow> (Inl GTTSGenerationFailed, p, w1)
              | (Inr mp3, w1) \<Rightarrow>
                  if gtts_ok io text lang
                  then convert_stage e io (p\<lparr>raw_mp3 := Some mp3\<rparr>, w1)
                  else (Inl GTTSGenerationFailed, p, remove_if_exists e mp3 w1)))"

text \<open>
  Lines 85-96, then the rest. The handler of line 95 prints and falls through to line 98;
  it removes nothing.
\<close>

definition synthesize ::
  "env \<Rightarrow> gen_io \<Rightarrow> string \<Rightarrow> string \<Rightarrow> TTSPlayer \<times> world
     \<Rightarrow> (error + string option) \<times> TTSPlayer \<times> world" where
  "synthesize e io text lang s =
     (case s of (p, w) \<Rightarrow>
        if startswith lang ''en'' \<and> pyttsx3_avail e \<and> \<not> gTTS_avail e
        then (case mkstemp (pick_offline_wav io) w of
                (Inl _, w1) \<Rightarrow> gtts_stage e io text lang (p, w1)
              | (Inr path, w1) \<Rightarrow>
                  if pyttsx3_ok io text
                  then (Inr (Some path), p\<lparr>audio_file := Some path\<rparr>, w1)
                  else gtts_stage e io text lang (p, w1))
        else gtts_stage e io text lang (p, w))"

text \<open>\<open>generate\<close>, lines 76-138: lines 82-83 first, then the synthesis.\<close>

definition generate ::
  "env \<Rightarrow> gen_io \<Rightarrow> string \<Rightarrow> string \<Rightarrow> TTSPlayer \<times> world
     \<Rightarrow> (error + string option) \<times> TTSPlayer \<times> world" where
  "generate e io text lang s =
     synthesize e io text lang (cleanup e (stop_and_cleanup_playback s))"

subsection \<open>Transport\<close>

text \<open>
  \<open>play\<close>, lines 140-156. \<open>dev\<close> as in \<open>ensure_pygame\<close>; \<open>decodes\<close> is whether the
  mixer can decode the file it is asked to load. The state is returned on the failure
  paths too: \<open>ensure_pygame\<close> may have initialised the mixer and \<open>stop\<close> has run before
  \<open>load\<close> raises.
\<close>

definition play ::
  "bool \<Rightarrow> bool \<Rightarrow> TTSPlayer \<times> world \<Rightarrow> (error + unit) \<times> TTSPlayer \<times> world" where
  "play dev decodes s =
     (case s of (p, w) \<Rightarrow>
        (case ensure_pygame dev w of
           Inl err \<Rightarrow> (Inl err, p, w)
         | Inr w1 \<Rightarrow>
             if (case audio_file p of None \<Rightarrow> True | Some f \<Rightarrow> f = [] \<or> f \<notin> files w1)
             then (Inl NoAudioFile, p, w1)
             else (let w2 = (case music_stop w1 of Inl _ \<Rightarrow> w1 | Inr w' \<Rightarrow> w')
                   in (case music_load decodes (audio_file p) w2 of
                         Inl _ \<Rightarrow> (Inl PlaybackFailed, p, w2)
                       | Inr w3 \<Rightarrow>
                           (case music_play w3 of
                              Inl _ \<Rightarrow> (Inl PlaybackFailed, p, w3)
                            | Inr w4 \<Rightarrow>
                                (Inr (), p\<lparr>is_playing := True, paused := False\<rparr>, w4))))))"

text \<open>
  \<open>pause\<close>, \<open>resume\<close> and \<open>stop\<close>, lines 158-185: a body inside \<open>try\<close>, and a
  handler that prints. The body's result is an error or the new state; the method returns
  the old state when the body raised (the assignments come after the last call that can
  raise, and a failed \<open>pygame.mixer.init()\<close> leaves the mixer as it was).
\<close>

definition pause_body :: "bool \<Rightarrow> TTSPlayer \<times> world \<Rightarrow> error + TTSPlayer \<times> world" where
  "pause_body dev s =
     (case s of (p, w) \<Rightarrow>
        (case ensure_pygame dev w of
           Inl err \<Rightarrow> Inl err
         | Inr w1 \<Rightarrow>
             (case music_get_busy w1 of
                Inl err \<Rightarrow> Inl err
              | Inr busy \<Rightarrow>
                  if busy \<and> \<not> paused p
                  then (case music_pause w1 of
                          Inl err \<Rightarrow> Inl err
                        | Inr w2 \<Rightarrow> Inr (p\<lparr>paused := True, is_playing := False\<rparr>, w2))
                  else Inr (p, w1))))"

definition pause :: "bool \<Rightarrow> TTSPlayer \<times> world \<Rightarrow> TTSPlayer \<times> world" where
  "pause dev s = (case pause_body dev s of Inl _ \<Rightarrow> s | Inr s' \<Rightarrow> s')"

definition resume_body :: "bool \<Rightarrow> TTSPlayer \<times> world \<Rightarrow> error + TTSPlayer \<times> world" where
  "resume_body dev s =
     (case s of (p, w) \<Rightarrow>
        (case ensure_pygame dev w of
           Inl err \<Rightarrow> Inl err
         | Inr w1 \<Rightarrow>
             if paused p
             then (case music_unpause w1 of
                     Inl err \<Rightarrow> Inl err
                   | Inr w2 \<Rightarrow> Inr (p\<lparr>paused := False, is_playing := True\<rparr>, w2))
             else Inr (p, w1)))"

definition resume :: "bool \<Rightarrow> TTSPlayer \<times> world \<Rightarrow> TTSPlayer \<times> world" where
  "resume dev s = (case resume_body dev s of Inl _ \<Rightarrow> s | Inr s' \<Rightarrow> s')"

definition stop_body :: "bool \<Rightarrow> TTSPlayer \<times> world \<Rightarrow> error + TTSPlayer \<times> world" where
  "stop_body dev s =
     (case s of (p, w) \<Rightarrow>
        (case ensure_pygame dev w of
           Inl err \<Rightarrow> Inl err
         | Inr w1 \<Rightarrow>
             (case music_stop w1 of
                Inl err \<Rightarrow> Inl err
              | Inr w2 \<Rightarrow> Inr (p\<lparr>is_playing := False, paused := False\<rparr>, w2))))"

definition stop :: "bool \<Rightarrow> TTSPlayer \<times> world \<Rightarrow> TTSPlayer \<times> world" where
  "stop dev s = (case stop_body dev s of Inl _ \<Rightarrow> s | Inr s' \<Rightarrow> s')"

text \<open>
  \<open>replay\<close>, lines 187-201: no check of the file; whatever is raised is printed and raised
  again.
\<close>

definition replay ::
  "bool \<Rightarrow> bool \<Rightarrow> TTSPlayer \<times> world \<Rightarrow> (error + unit) \<times> TTSPlayer \<times> world" where
  "replay dev decodes s =
     (case s of (p, w) \<Rightarrow>
        (case ensure_pygame dev w of
           Inl err \<Rightarrow> (Inl err, p, w)
         | Inr w1 \<Rightarrow>
             (let w2 = (case music_stop w1 of Inl _ \<Rightarrow> w1 | Inr w' \<Rightarrow> w')
              in (case music_load decodes (audio_file p) w2 of
                    Inl err \<Rightarrow> (Inl err, p, w2)
                  | Inr w3 \<Rightarrow>
                      (case music_play w3 of
                         Inl err \<Rightarrow> (Inl err, p, w3)
                       | Inr w4 \<Rightarrow>
                           (Inr (), p\<lparr>is_playing := True, paused := False\<rparr>, w4))))))"

subsection \<open>Histories of one player\<close>

text \<open>
  A call of a method together with what its external calls answer, or the track running
  out. \<open>run\<close> applies a history to a state; an exception raised by a method reaches the
  caller, who goes on with the object as the method left it.
\<close>

datatype call =
    Generate gen_io string string
  | Play bool bool
  | Pause bool
  | Resume bool
  | Stop bool
  | Replay bool bool
  | Cleanup
  | TrackEnds

fun exec :: "env \<Rightarrow> call \<Rightarrow> TTSPlayer \<times> world \<Rightarrow> TTSPlayer \<times> world" where
  "exec e (Generate io text lang) s = snd (generate e io text lang s)"
| "exec e (Play dev decodes) s = snd (play dev decodes s)"
| "exec e (Pause dev) s = pause dev s"
| "exec e (Resume dev) s = resume dev s"
| "exec e (Stop dev) s = stop dev s"
| "exec e (Replay dev decodes) s = snd (replay dev decodes s)"
| "exec e Cleanup s = cleanup e s"
| "exec e TrackEnds s = (fst s, track_ends (snd s))"

fun run :: "env \<Rightarrow> call list \<Rightarrow> TTSPlayer \<times> world \<Rightarrow> TTSPlayer \<times> world" where
  "run e [] s = s"
| "run e (c # cs) s = run e cs (exec e c s)"

text \<open>
  The program at start: some files on storage, the mixer not initialised (nothing at
  import time initialises it), a fresh player.
\<close>

definition boot :: "string set \<Rightarrow> bool \<Rightarrow> TTSPlayer \<times> world" where
  "boot fs pygame_imported =
     (TTSPlayer_init,
      \<lparr>files = fs, pygame = (if pygame_imported then Some NotInit else None), loads = 0\<rparr>)"

section \<open>Word lookup\<close>

text \<open>
  \<open>_fetch_meaning_thread\<close>, lines 498-553. The text widget \<open>meaning_box\<close> is the
  string it shows. A decoded JSON value is a \<open>json\<close>; numbers matter only through
  being zero or not.
\<close>

datatype json =
    JNull | JBool bool | JNum int | JStr string
  | JList "json list" | JObj "(string \<times> json) list"

record response =
  status_code :: int
  body :: "json option"    \<comment> \<open>what \<open>resp.json()\<close> returns, \<open>None\<close> when it raises\<close>

text \<open>
  The collaborators of one lookup: the HTTP request (\<open>None\<close> when \<open>requests.get\<close>
  raises), the translator (\<open>Inl\<close> the text of its exception), Python's \<open>str\<close> on
  values that are not strings and on exceptions, the selected language key.
\<close>

record lookup_io =
  http_get :: "string \<Rightarrow> response option"
  translate :: "string \<Rightarrow> string \<Rightarrow> string + string"  \<comment> \<open>target code, text\<close>
  repr :: "json \<Rightarrow> string"
  describe :: "error \<Rightarrow> string"
  lang_var :: string

definition languages :: "(string \<times> string) list" where
  "languages =
     [(''English (en)'', ''en''), (''Hindi (hi)'', ''hi''), (''Bengali (bn)'', ''bn''),
      (''Tamil (ta)'', ''ta''), (''Telugu (te)'', ''te''), (''Kannada (kn)'', ''kn''),
      (''Malayalam (ml)'', ''ml''), (''Marathi (mr)'', ''mr''), (''Gujarati (gu)'', ''gu''),
      (''Punjabi (pa)'', ''pa''), (''Odia (or)'', ''or''), (''Urdu (ur)'', ''ur''),
      (''Nepali (ne)'', ''ne''), (''Spanish (es)'', ''es''), (''French (fr)'', ''fr''),
      (''German (de)'', ''de''), (''Portuguese (pt)'', ''pt''), (''Japanese (ja)'', ''ja''),
      (''Korean (ko)'', ''ko''), (''Russian (ru)'', ''ru''), (''Italian (it)'', ''it'')]"

definition nl :: string where
  "nl = [CHR 0x0A]"

definition quoted :: "string \<Rightarrow> string" where
  "quoted s = [CHR 0x22] @ s @ [CHR 0x22]"

definition py_str :: "lookup_io \<Rightarrow> json \<Rightarrow> string" where
  "py_str io v = (case v of JStr s \<Rightarrow> s | _ \<Rightarrow> repr io v)"

fun truthy :: "json \<Rightarrow> bool" where
  "truthy JNull = False"
| "truthy (JBool b) = b"
| "truthy (JNum n) = (n \<noteq> 0)"
| "truthy (JStr s) = (s \<noteq> [])"
| "truthy (JList xs) = (xs \<noteq> [])"
| "truthy (JObj kvs) = (kvs \<noteq> [])"

text \<open>\<open>obj.get(key, dflt)\<close>; of duplicate keys the JSON decoder keeps the last.\<close>

definition py_get :: "json \<Rightarrow> string \<Rightarrow> json \<Rightarrow> error + json" where
  "py_get obj key dflt =
     (case obj of
        JObj kvs \<Rightarrow> (case map_of (rev kvs) key of None \<Rightarrow> Inr dflt | Some v \<Rightarrow> Inr v)
      | _ \<Rightarrow> Inl AttributeError)"

definition py_index0 :: "json \<Rightarrow> error + json" where
  "py_index0 v =
     (case v of
        JList xs \<Rightarrow> (case xs of [] \<Rightarrow> Inl IndexError | x # _ \<Rightarrow> Inr x)
      | JStr s \<Rightarrow> (case s of [] \<Rightarrow> Inl IndexError | c # _ \<Rightarrow> Inr (JStr [c]))
      | JObj _ \<Rightarrow> Inl KeyError
      | _ \<Rightarrow> Inl TypeError)"

definition bind_err :: "error + 'a \<Rightarrow> ('a \<Rightarrow> error + 'b) \<Rightarrow> error + 'b" where
  "bind_err r f = (case r of Inl err \<Rightarrow> Inl err | Inr v \<Rightarrow> f v)"

text \<open>Lines 513-517.\<close>

definition phonetics_text :: "lookup_io \<Rightarrow> json \<Rightarrow> error + string" where
  "phonetics_text io entry =
     bind_err (py_get entry ''phonetics'' (JList [])) (\<lambda>phonetics.
       if truthy phonetics
       then bind_err (py_index0 phonetics) (\<lambda>ph0.
            bind_err (py_get ph0 ''text'' JNull) (\<lambda>p.
              Inr (if truthy p then ''Pronunciation: '' @ py_str io p @ nl else [])))
       else Inr [])"

text \<open>Lines 518-532.\<close>

definition meanings_text :: "lookup_io \<Rightarrow> json \<Rightarrow> error + string" where
  "meanings_text io entry =
     bind_err (py_get entry ''meanings'' (JList [])) (\<lambda>meanings.
       if truthy meanings
       then bind_err (py_index0 meanings) (\<lambda>first_meaning.
            bind_err (py_get first_meaning ''partOfSpeech'' (JStr [])) (\<lambda>part.
            bind_err (py_get first_meaning ''definitions'' (JList [])) (\<lambda>defs.
              if truthy defs
              then bind_err (py_index0 defs) (\<lambda>d0.
                   bind_err (py_get d0 ''definition'' (JStr [])) (\<lambda>definition.
                   bind_err (py_get d0 ''example'' JNull) (\<lambda>example.
                     Inr (''Part of speech: '' @ py_str io part @ nl @
                          ''Definition: '' @ py_str io definition @ nl @
                          (if truthy example
                           then ''Example: '' @ py_str io example @ nl else [])))))
              else Inr [])))
       else Inr (''No meanings found.'' @ nl))"

definition no_definition :: "string \<Rightarrow> string" where
  "no_definition word = ''No definition found for '' @ quoted word @ ''.'' @ nl"

definition searching :: "string \<Rightarrow> string" where
  "searching word = ''Searching meaning for '' @ quoted word @ ''...'' @ nl"

text \<open>Lines 508-534.\<close>

definition short_text :: "lookup_io \<Rightarrow> string \<Rightarrow> json \<Rightarrow> error + string" where
  "short_text io word data =
     (case data of
        JList (entry # _) \<Rightarrow>
          bind_err (py_get entry ''word'' (JStr word)) (\<lambda>word_title.
          bind_err (phonetics_text io entry) (\<lambda>ph.
          bind_err (meanings_text io entry) (\<lambda>ms.
            Inr (''Word: '' @ py_str io word_title @ nl @ ph @ ms))))
      | _ \<Rightarrow> Inr (no_definition word))"

text \<open>Lines 536-546.\<close>

definition full_text :: "lookup_io \<Rightarrow> string \<Rightarrow> string" where
  "full_text io short =
     (let target_code = (case map_of languages (lang_var io) of None \<Rightarrow> ''en'' | Some c \<Rightarrow> c)
      in if target_code \<noteq> ''en''
         then (case translate io target_code short of
                 Inr translated \<Rightarrow>
                   ''--- Original (English) ---'' @ nl @ short @ nl @ nl @
                   ''--- Translated ---'' @ nl @ translated
               | Inl msg \<Rightarrow> short @ nl @ nl @ ''(Translation failed: '' @ msg @ '')'')
         else short)"

text \<open>
  The body of the \<open>try\<close>, lines 500-549, from the moment the box shows the "searching"
  line: the new content of the box, or the exception. Every call that can raise comes
  before the box is touched again, so the box still shows the "searching" line when the
  handler runs.
\<close>

definition fetch_meaning_body :: "lookup_io \<Rightarrow> string \<Rightarrow> error + string" where
  "fetch_meaning_body io word =
     (case http_get io (''https://api.dictionaryapi.dev/api/v2/entries/en/'' @ word) of
        None \<Rightarrow> Inl RequestFailed
      | Some resp \<Rightarrow>
          if status_code resp \<noteq> 200
          then Inr (searching word @ no_definition word)
          else (case body resp of
                  None \<Rightarrow> Inl BadJSON
                | Some data \<Rightarrow>
                    bind_err (short_text io word data) (\<lambda>short. Inr (full_text io short))))"

text \<open>
  The method: what the box shows when it returns, whatever it showed before (line 500
  empties it). The handler of lines 550-553 appends the text of the exception.
\<close>

definition fetch_meaning_thread :: "lookup_io \<Rightarrow> string \<Rightarrow> string \<Rightarrow> string" where
  "fetch_meaning_thread io word meaning_box =
     (case fetch_meaning_body io word of
        Inr shown \<Rightarrow> shown
      | Inl err \<Rightarrow> searching word @ ''Error: '' @ describe io err)"

section \<open>Predicates of the properties\<close>

text \<open>The controller is never at once playing and paused.\<close>

definition state_inv :: "TTSPlayer \<Rightarrow> bool" where
  "state_inv p = (\<not> (is_playing p \<and> paused p))"

definition initialised :: "world \<Rightarrow> bool" where
  "initialised w = (case pygame w of None \<Rightarrow> False | Some m \<Rightarrow> get_init m)"

text \<open>
  The audio device subsystem is available: pygame was imported, and the mixer is
  initialised or can be.
\<close>

definition device_available :: "bool \<Rightarrow> world \<Rightarrow> bool" where
  "device_available dev w = (pygame w \<noteq> None \<and> (initialised w \<or> dev))"

text \<open>A flag of the player is set only while the mixer is initialised.\<close>

definition coupled :: "TTSPlayer \<times> world \<Rightarrow> bool" where
  "coupled s = (initialised (snd s) \<or> (\<not> is_playing (fst s) \<and> \<not> paused (fst s)))"

text \<open>The state in which \<open>generate\<close> starts to synthesise: after lines 82-83.\<close>

definition torn_down :: "env \<Rightarrow> TTSPlayer \<times> world \<Rightarrow> TTSPlayer \<times> world" where
  "torn_down e s = cleanup e (stop_and_cleanup_playback s)"

text \<open>
  The try block of lines 119-131 runs to its end in this call: pydub was imported,
  \<open>mkstemp\<close> hands out the picked name (it is not the MP3 just written nor a file left
  after the cleanup), and \<open>from_file\<close> and \<open>export\<close> go through.
\<close>

definition conversion_succeeds :: "env \<Rightarrow> gen_io \<Rightarrow> TTSPlayer \<times> world \<Rightarrow> bool" where
  "conversion_succeeds e io s =
     (AudioSegment_avail e \<and> convert_ok io \<and>
      (case pick_wav io of
         None \<Rightarrow> False
       | Some v \<Rightarrow> v \<noteq> [] \<and> Some v \<noteq> pick_mp3 io \<and> v \<notin> files (snd (torn_down e s))))"

section \<open>Concrete situations\<close>

text \<open>
  Inputs at which the theorems below are evaluated. \<open>env_full\<close> is a Windows machine with
  every optional package installed; \<open>first_loaded\<close> is a player whose first asset is
  loaded and playing.
\<close>

definition env_full :: env where
  "env_full = \<lparr>pyttsx3_avail = True, gTTS_avail = True, AudioSegment_avail = True,
                exclusive_locks = True\<rparr>"

definition io_ok :: gen_io where
  "io_ok = \<lparr>pick_offline_wav = Some ''tmp_a.wav'', pyttsx3_ok = (\<lambda>_. True),
            pick_mp3 = Some ''tts_b.mp3'', gtts_ok = (\<lambda>_ _. True),
            pick_wav = Some ''tts_c.wav'', convert_ok = True\<rparr>"

definition first_loaded :: "TTSPlayer \<times> world" where
  "first_loaded =
     (\<lparr>audio_file = Some ''tts_old.wav'', raw_mp3 = None, is_playing = True, paused = False\<rparr>,
      \<lparr>files = {''tts_old.wav'', ''notes.txt''},
       pygame = Some (Init (Some ''tts_old.wav'') True False), loads = 1\<rparr>)"

text \<open>
  \<open>env_offline\<close>: only the offline engine is installed. \<open>env_no_pydub\<close>: gTTS without
  pydub. \<open>io_engine_broken\<close>: the offline engine raises. \<open>io_tts_down\<close>: the gTTS
  request fails. \<open>io_convert_fails\<close>: pydub cannot convert.
\<close>

definition env_offline :: env where
  "env_offline = \<lparr>pyttsx3_avail = True, gTTS_avail = False, AudioSegment_avail = False,
                   exclusive_locks = False\<rparr>"

definition env_no_pydub :: env where
  "env_no_pydub = \<lparr>pyttsx3_avail = False, gTTS_avail = True, AudioSegment_avail = False,
                    exclusive_locks = False\<rparr>"

definition io_engine_broken :: gen_io where
  "io_engine_broken = io_ok\<lparr>pyttsx3_ok := (\<lambda>_. False)\<rparr>"

definition io_tts_down :: gen_io where
  "io_tts_down = io_ok\<lparr>gtts_ok := (\<lambda>_ _. False)\<rparr>"

definition io_convert_fails :: gen_io where
  "io_convert_fails = io_ok\<lparr>convert_ok := False\<rparr>"

text \<open>
  \<open>mp3_playing\<close>: a player without pydub after one \<open>generate\<close> and one \<open>play\<close> (the
  lemma \<open>mp3_playing_reached\<close> below).
\<close>

definition mp3_playing :: "TTSPlayer \<times> world" where
  "mp3_playing =
     (\<lparr>audio_file = Some ''tts_b.mp3'', raw_mp3 = Some ''tts_b.mp3'', is_playing = True,
        paused = False\<rparr>,
      \<lparr>files = {''tts_b.mp3''}, pygame = Some (Init (Some ''tts_b.mp3'') True False),
        loads = 1\<rparr>)"

text \<open>
  \<open>mp3_without_pygame\<close>: the same machine without pygame, after one \<open>generate\<close>
  (the lemma \<open>mp3_without_pygame_reached\<close> below).
\<close>

definition mp3_without_pygame :: "TTSPlayer \<times> world" where
  "mp3_without_pygame =
     (\<lparr>audio_file = Some ''tts_b.mp3'', raw_mp3 = Some ''tts_b.mp3'', is_playing = False,
        paused = False\<rparr>,
      \<lparr>files = {''tts_b.mp3''}, pygame = None, loads = 0\<rparr>)"

text \<open>\<open>lookup_404\<close>: the definitions endpoint answers every request with 404.\<close>

definition lookup_404 :: lookup_io where
  "lookup_404 =
     \<lparr>http_get = (\<lambda>_. Some \<lparr>status_code = 404, body = None\<rparr>),
      translate = (\<lambda>_ t. Inr t), repr = (\<lambda>_. []), describe = (\<lambda>_. []),
      lang_var = ''English (en)''\<rparr>"

lemmas scenario_defs = env_full_def io_ok_def first_loaded_def env_offline_def
  env_no_pydub_def io_engine_broken_def io_tts_down_def io_convert_fails_def

lemmas model_defs =
  generate_def synthesize_def gtts_stage_def convert_stage_def keep_mp3_def cleanup_def
  stop_and_cleanup_playback_def tracked_paths_def remove_if_exists_def os_remove_def
  mkstemp_def held_def get_init_def mixer_quit_def music_stop_def music_load_def
  music_play_def music_pause_def music_unpause_def music_get_busy_def track_ends_def
  ensure_pygame_def startswith_def play_def pause_def pause_body_def resume_def
  resume_body_def stop_def stop_body_def replay_def boot_def TTSPlayer_init_def
  torn_down_def conversion_succeeds_def initialised_def device_available_def

section \<open>The flags of the player\<close>

lemma cleanup_flags:
  "\<not> is_playing (fst (cleanup e s)) \<and> \<not> paused (fst (cleanup e s))"
  by (cases s) (simp add: cleanup_def)

lemma convert_stage_flags:
  "is_playing (fst (snd (convert_stage e io s))) = is_playing (fst s) \<and>
   paused (fst (snd (convert_stage e io s))) = paused (fst s)"
  by (cases s) (simp add: convert_stage_def keep_mp3_def Let_def split: prod.splits sum.splits)

lemma gtts_stage_flags:
  "is_playing (fst (snd (gtts_stage e io t l s))) = is_playing (fst s) \<and>
   paused (fst (snd (gtts_stage e io t l s))) = paused (fst s)"
  by (cases s) (simp add: gtts_stage_def convert_stage_flags split: prod.splits sum.splits)

lemma synthesize_flags:
  "is_playing (fst (snd (synthesize e io t l s))) = is_playing (fst s) \<and>
   paused (fst (snd (synthesize e io t l s))) = paused (fst s)"
  by (cases s) (simp add: synthesize_def gtts_stage_flags split: prod.splits sum.splits)

lemma generate_flags:
  "\<not> is_playing (fst (snd (generate e io t l s))) \<and>
   \<not> paused (fst (snd (generate e io t l s)))"
  by (simp add: generate_def synthesize_flags cleanup_flags)

lemma play_inv: "state_inv (fst s) \<Longrightarrow> state_inv (fst (snd (play d c s)))"
  by (cases s) (simp add: play_def state_inv_def Let_def split: sum.splits)

lemma replay_inv: "state_inv (fst s) \<Longrightarrow> state_inv (fst (snd (replay d c s)))"
  by (cases s) (simp add: replay_def state_inv_def Let_def split: sum.splits)

lemma pause_inv: "state_inv (fst s) \<Longrightarrow> state_inv (fst (pause d s))"
  by (cases s) (simp add: pause_def pause_body_def state_inv_def split: sum.splits)

lemma resume_inv: "state_inv (fst s) \<Longrightarrow> state_inv (fst (resume d s))"
  by (cases s) (simp add: resume_def resume_body_def state_inv_def split: sum.splits)

lemma stop_inv: "state_inv (fst s) \<Longrightarrow> state_inv (fst (stop d s))"
  by (cases s) (simp add: stop_def stop_body_def state_inv_def split: sum.splits)

lemma exec_inv: "state_inv (fst s) \<Longrightarrow> state_inv (fst (exec e c s))"
  by (cases c)
     (simp_all add: play_inv replay_inv pause_inv resume_inv stop_inv,
      simp_all add: state_inv_def generate_flags cleanup_flags)

lemma run_inv: "state_inv (fst s) \<Longrightarrow> state_inv (fst (run e cs s))"
  by (induction cs arbitrary: s) (simp_all add: exec_inv)

text \<open>
  C9. The constructor establishes \<open>\<not> (is_playing \<and> paused)\<close>, and every operation
  preserves it whether it returns or raises: \<open>exec\<close> is the state a call leaves behind
  on either path, for \<open>generate\<close>, \<open>play\<close>, \<open>pause\<close>, \<open>resume\<close>, \<open>stop\<close>,
  \<open>replay\<close> and \<open>cleanup\<close> (and for the track running out). Hence it holds after
  every history of a player. The statement is about the state between calls: inside
  \<open>pause\<close> and \<open>resume\<close> the two flags are assigned one after the other.
\<close>

theorem playing_paused_exclusive:
  "state_inv TTSPlayer_init \<and>
   (state_inv p \<longrightarrow> state_inv (fst (exec e c (p, w)))) \<and>
   state_inv (fst (run e cs (boot fs imported)))"
proof -
  have a: "state_inv TTSPlayer_init"
    by (simp add: state_inv_def TTSPlayer_init_def)
  have b: "state_inv p \<longrightarrow> state_inv (fst (exec e c (p, w)))"
    using exec_inv [of "(p, w)"] by simp
  have c: "state_inv (fst (run e cs (boot fs imported)))"
    using run_inv [of "boot fs imported"] a by (simp add: boot_def)
  from a b c show ?thesis by blast
qed

theorem playing_paused_exclusive_witness:
  "state_inv (fst first_loaded) \<and>
   state_inv (fst (exec env_full (Pause True) first_loaded)) \<and>
   paused (fst (exec env_full (Pause True) first_loaded)) \<and>
   state_inv (fst (run env_full [Generate io_ok ''Hola'' ''es'', Play True True, Pause True]
                     (boot {} True)))"
proof -
  have a: "state_inv (fst first_loaded)"
    by (simp add: state_inv_def first_loaded_def)
  have b: "paused (fst (exec env_full (Pause True) first_loaded))"
    by (simp add: first_loaded_def pause_def pause_body_def ensure_pygame_def get_init_def
          music_get_busy_def music_pause_def)
  show ?thesis
    using playing_paused_exclusive
      [of "fst first_loaded" env_full "Pause True" "snd first_loaded"
          "[Generate io_ok ''Hola'' ''es'', Play True True, Pause True]" "{}" True] a b
    by simp
qed

section \<open>What generate leaves on storage\<close>

subsection \<open>The teardown of lines 82-83\<close>

lemma not_initialised_not_held: "\<not> initialised w \<Longrightarrow> \<not> held w f"
  by (auto simp: initialised_def held_def get_init_def split: option.splits mixer.splits)

lemma stop_and_cleanup_playback_player: "fst (stop_and_cleanup_playback s) = fst s"
  by (cases s) (simp add: stop_and_cleanup_playback_def split: option.splits sum.splits)

lemma stop_and_cleanup_playback_world:
  "files (snd (stop_and_cleanup_playback s)) = files (snd s) \<and>
   loads (snd (stop_and_cleanup_playback s)) = loads (snd s) \<and>
   \<not> initialised (snd (stop_and_cleanup_playback s)) \<and>
   (pygame (snd (stop_and_cleanup_playback s)) = None) = (pygame (snd s) = None)"
  by (cases s)
     (auto simp: stop_and_cleanup_playback_def music_stop_def mixer_quit_def initialised_def
        get_init_def split: option.splits mixer.splits sum.splits)

lemma remove_if_exists_quiet:
  "\<not> initialised w \<Longrightarrow>
     files (remove_if_exists e f w) = (if f = [] then files w else files w - {f}) \<and>
     pygame (remove_if_exists e f w) = pygame w \<and>
     loads (remove_if_exists e f w) = loads w"
  by (auto simp: remove_if_exists_def os_remove_def not_initialised_not_held)

lemma remove_if_exists_initialised:
  "initialised (remove_if_exists e f w) = initialised w"
  by (auto simp: remove_if_exists_def os_remove_def initialised_def)

lemma remove_paths_quiet:
  "\<not> initialised w \<Longrightarrow> [] \<notin> set fs \<Longrightarrow>
     files (remove_paths e fs w) = files w - set fs \<and>
     pygame (remove_paths e fs w) = pygame w \<and>
     loads (remove_paths e fs w) = loads w"
proof (induction fs arbitrary: w)
  case Nil
  then show ?case by simp
next
  case (Cons f fs)
  have q: "\<not> initialised (remove_if_exists e f w)"
    using Cons.prems(1) by (simp add: remove_if_exists_initialised)
  have ne: "f \<noteq> []" "[] \<notin> set fs" using Cons.prems(2) by auto
  show ?case
    using Cons.IH [OF q ne(2)] remove_if_exists_quiet [OF Cons.prems(1), of e f] ne(1)
    by auto
qed

lemma tracked_paths_nonempty: "[] \<notin> set (tracked_paths p)"
  by (auto simp: tracked_paths_def split: option.splits)

lemma torn_down_player:
  "fst (torn_down e s) =
     (fst s)\<lparr>audio_file := None, raw_mp3 := None, is_playing := False, paused := False\<rparr>"
  by (cases s) (simp add: torn_down_def cleanup_def stop_and_cleanup_playback_def
       split: option.splits sum.splits prod.splits)

lemma torn_down_world:
  "files (snd (torn_down e s)) = files (snd s) - set (tracked_paths (fst s)) \<and>
   loads (snd (torn_down e s)) = loads (snd s) \<and>
   \<not> initialised (snd (torn_down e s)) \<and>
   (pygame (snd (torn_down e s)) = None) = (pygame (snd s) = None)"
proof -
  obtain p1 w1 where s1: "stop_and_cleanup_playback s = (p1, w1)" by (cases "stop_and_cleanup_playback s")
  have p1: "p1 = fst s" using stop_and_cleanup_playback_player [of s] s1 by simp
  have w1: "files w1 = files (snd s)" "loads w1 = loads (snd s)" "\<not> initialised w1"
     "(pygame w1 = None) = (pygame (snd s) = None)"
    using stop_and_cleanup_playback_world [of s] s1 by simp_all
  have t: "snd (torn_down e s) = remove_paths e (tracked_paths (fst s)) w1"
    by (simp add: torn_down_def s1 cleanup_def p1)
  show ?thesis
    using remove_paths_quiet [OF w1(3) tracked_paths_nonempty, of e "fst s"] w1 t
    by (simp add: initialised_def)
qed

lemma synthesize_mixer:
  "pygame (snd (snd (synthesize e io t l s))) = pygame (snd s) \<and>
   loads (snd (snd (synthesize e io t l s))) = loads (snd s)"
  by (cases s)
     (auto simp: synthesize_def gtts_stage_def convert_stage_def keep_mp3_def mkstemp_def
        remove_if_exists_def os_remove_def Let_def
        split: option.splits sum.splits prod.splits if_splits)

lemma insert_remove_fresh:
  "m \<notin> F \<Longrightarrow> v \<noteq> m \<Longrightarrow> insert v (insert m F) - {m} = insert v F"
  "m \<notin> F \<Longrightarrow> insert m F - {m} = F"
  by auto

lemma synthesize_converted:
  assumes q: "\<not> initialised w"
    and g: "gTTS_avail e"
    and a: "AudioSegment_avail e" "convert_ok io"
    and v: "pick_wav io = Some v" "v \<noteq> []" "Some v \<noteq> pick_mp3 io" "v \<notin> files w"
    and r: "fst (synthesize e io t l (p, w)) = Inr r"
  shows "synthesize e io t l (p, w) =
           (Inr (Some v), p\<lparr>audio_file := Some v, raw_mp3 := None\<rparr>,
            w\<lparr>files := insert v (files w)\<rparr>) \<and>
         (\<forall>m. pick_mp3 io = Some m \<longrightarrow> m \<notin> insert v (files w))"
  using q g a v r not_initialised_not_held [OF q]
  by (auto simp: synthesize_def gtts_stage_def convert_stage_def keep_mp3_def mkstemp_def
        remove_if_exists_def os_remove_def Let_def held_def initialised_def
        insert_remove_fresh
        split: option.splits sum.splits prod.splits if_splits)

text \<open>
  C1. A call of \<open>generate\<close> that returns, and in which the conversion of lines 119-131
  is reached (gTTS is the backend) and runs to its end: the value returned and
  \<open>audio_file\<close> are the new WAV path \<open>v\<close>, \<open>_raw_mp3\<close> is \<open>None\<close>, the tracked
  paths are exactly \<open>[v]\<close>, the MP3 is no longer on storage, and storage is what it was
  before the call, less every path the player tracked then, plus \<open>v\<close> (a path that did
  not exist once the old files were gone).
\<close>

theorem generate_converted:
  assumes g: "gTTS_avail e"
    and c: "conversion_succeeds e io s"
    and r: "fst (generate e io text lang s) = Inr r"
  shows "\<exists>v. pick_wav io = Some v \<and> r = Some v \<and>
           audio_file (fst (snd (generate e io text lang s))) = Some v \<and>
           raw_mp3 (fst (snd (generate e io text lang s))) = None \<and>
           tracked_paths (fst (snd (generate e io text lang s))) = [v] \<and>
           v \<notin> files (snd s) - set (tracked_paths (fst s)) \<and>
           files (snd (snd (generate e io text lang s))) =
             insert v (files (snd s) - set (tracked_paths (fst s))) \<and>
           (\<forall>m. pick_mp3 io = Some m \<longrightarrow> m \<notin> files (snd (snd (generate e io text lang s))))"
proof -
  obtain p0 w0 where t: "torn_down e s = (p0, w0)" by (cases "torn_down e s")
  have gen: "generate e io text lang s = synthesize e io text lang (p0, w0)"
    by (simp add: generate_def torn_down_def [symmetric] t)
  have w0: "files w0 = files (snd s) - set (tracked_paths (fst s))" "\<not> initialised w0"
    using torn_down_world [of e s] t by simp_all
  have p0: "audio_file p0 = None" "raw_mp3 p0 = None"
    using torn_down_player [of e s] t by simp_all
  from c obtain v where v: "pick_wav io = Some v" "v \<noteq> []" "Some v \<noteq> pick_mp3 io"
      "v \<notin> files w0" and a: "AudioSegment_avail e" "convert_ok io"
    by (auto simp: conversion_succeeds_def t split: option.splits)
  have r': "fst (synthesize e io text lang (p0, w0)) = Inr r" using r gen by simp
  note syn = synthesize_converted [OF w0(2) g a v r']
  have res: "generate e io text lang s =
      (Inr (Some v), p0\<lparr>audio_file := Some v, raw_mp3 := None\<rparr>,
       w0\<lparr>files := insert v (files w0)\<rparr>)"
    using syn gen by simp
  have rv: "r = Some v" using r res by simp
  have tp: "tracked_paths (p0\<lparr>audio_file := Some v, raw_mp3 := None\<rparr>) = [v]"
    using v(2) by (simp add: tracked_paths_def)
  have mp3: "\<forall>m. pick_mp3 io = Some m \<longrightarrow> m \<notin> insert v (files w0)"
    using syn by simp
  have "pick_wav io = Some v \<and> r = Some v \<and>
      audio_file (fst (snd (generate e io text lang s))) = Some v \<and>
      raw_mp3 (fst (snd (generate e io text lang s))) = None \<and>
      tracked_paths (fst (snd (generate e io text lang s))) = [v] \<and>
      v \<notin> files (snd s) - set (tracked_paths (fst s)) \<and>
      files (snd (snd (generate e io text lang s))) =
        insert v (files (snd s) - set (tracked_paths (fst s))) \<and>
      (\<forall>m. pick_mp3 io = Some m \<longrightarrow> m \<notin> files (snd (snd (generate e io text lang s))))"
    unfolding res using v(1) rv tp v(4) mp3 by (simp add: w0(1))
  then show ?thesis by (rule exI)
qed

theorem generate_converted_witness:
  "gTTS_avail env_full \<and> conversion_succeeds env_full io_ok first_loaded \<and>
   fst (generate env_full io_ok ''Hola'' ''es'' first_loaded) = Inr (Some ''tts_c.wav'') \<and>
   audio_file (fst (snd (generate env_full io_ok ''Hola'' ''es'' first_loaded))) = Some ''tts_c.wav'' \<and>
   raw_mp3 (fst (snd (generate env_full io_ok ''Hola'' ''es'' first_loaded))) = None \<and>
   files (snd (snd (generate env_full io_ok ''Hola'' ''es'' first_loaded))) =
     {''tts_c.wav'', ''notes.txt''}"
proof -
  have g: "gTTS_avail env_full" by (simp add: env_full_def)
  have c: "conversion_succeeds env_full io_ok first_loaded"
    by (simp add: scenario_defs model_defs)
  have r: "fst (generate env_full io_ok ''Hola'' ''es'' first_loaded) = Inr (Some ''tts_c.wav'')"
    by (simp add: scenario_defs model_defs)
  show ?thesis
    using generate_converted [OF g c r] g c r
    by (auto simp: scenario_defs tracked_paths_def)
qed

subsection \<open>The stages of the synthesis\<close>

lemma mkstemp_cases:
  "mkstemp pick w = (Inl OSError, w) \<or>
   (\<exists>f. pick = Some f \<and> f \<noteq> [] \<and> f \<notin> files w \<and>
        mkstemp pick w = (Inr f, w\<lparr>files := insert f (files w)\<rparr>))"
  by (auto simp: mkstemp_def split: option.splits)

lemma keep_mp3_result:
  "keep_mp3 (p, w) = (Inr (raw_mp3 p), p\<lparr>audio_file := raw_mp3 p\<rparr>, w)"
  by (simp add: keep_mp3_def)

lemma convert_stage_success:
  assumes q: "\<not> initialised w"
    and m: "raw_mp3 p = Some m" "m \<noteq> []" "m \<in> files w"
  shows "\<exists>g. fst (convert_stage e io (p, w)) = Inr (Some g) \<and>
           audio_file (fst (snd (convert_stage e io (p, w)))) = Some g \<and> g \<noteq> [] \<and>
           g \<in> files (snd (snd (convert_stage e io (p, w)))) \<and>
           (g = m \<or> g \<notin> files w)"
proof (cases "AudioSegment_avail e")
  case False
  then show ?thesis using m by (simp add: convert_stage_def keep_mp3_result)
next
  case True
  from mkstemp_cases [of "pick_wav io" w] show ?thesis
  proof
    assume "mkstemp (pick_wav io) w = (Inl OSError, w)"
    then show ?thesis using True m by (simp add: convert_stage_def keep_mp3_result)
  next
    assume "\<exists>f. pick_wav io = Some f \<and> f \<noteq> [] \<and> f \<notin> files w \<and>
        mkstemp (pick_wav io) w = (Inr f, w\<lparr>files := insert f (files w)\<rparr>)"
    then obtain v where v: "v \<noteq> []" "v \<notin> files w"
        "mkstemp (pick_wav io) w = (Inr v, w\<lparr>files := insert v (files w)\<rparr>)" by blast
    have vm: "v \<noteq> m" using v(2) m(3) by auto
    have nh: "\<not> held (w\<lparr>files := insert v (files w)\<rparr>) m"
      using not_initialised_not_held [OF q, of m] by (simp add: held_def)
    show ?thesis
    proof (cases "convert_ok io")
      case False
      then show ?thesis using True m v by (simp add: convert_stage_def keep_mp3_result)
    next
      case c: True
      show ?thesis using True c m v vm nh
        by (simp add: convert_stage_def os_remove_def Let_def)
    qed
  qed
qed

lemma mkstemp_initialised: "initialised (snd (mkstemp pick w)) = initialised w"
  by (auto simp: mkstemp_def initialised_def split: option.splits)

lemma gtts_stage_success:
  assumes q: "\<not> initialised w"
    and r: "fst (gtts_stage e io t l (p, w)) = Inr r"
  shows "\<exists>g. r = Some g \<and> audio_file (fst (snd (gtts_stage e io t l (p, w)))) = Some g \<and>
           g \<noteq> [] \<and> g \<in> files (snd (snd (gtts_stage e io t l (p, w)))) \<and> g \<notin> files w"
proof -
  have g: "gTTS_avail e" using r by (auto simp: gtts_stage_def split: if_splits)
  from mkstemp_cases [of "pick_mp3 io" w] show ?thesis
  proof
    assume "mkstemp (pick_mp3 io) w = (Inl OSError, w)"
    then show ?thesis using r g by (simp add: gtts_stage_def)
  next
    assume "\<exists>f. pick_mp3 io = Some f \<and> f \<noteq> [] \<and> f \<notin> files w \<and>
        mkstemp (pick_mp3 io) w = (Inr f, w\<lparr>files := insert f (files w)\<rparr>)"
    then obtain m where m: "m \<noteq> []" "m \<notin> files w"
        "mkstemp (pick_mp3 io) w = (Inr m, w\<lparr>files := insert m (files w)\<rparr>)" by blast
    have ok: "gtts_ok io t l" using r g m by (auto simp: gtts_stage_def split: if_splits)
    have eq: "gtts_stage e io t l (p, w) =
        convert_stage e io (p\<lparr>raw_mp3 := Some m\<rparr>, w\<lparr>files := insert m (files w)\<rparr>)"
      using g m ok by (simp add: gtts_stage_def)
    have q1: "\<not> initialised (w\<lparr>files := insert m (files w)\<rparr>)"
      using q by (simp add: initialised_def)
    from convert_stage_success [OF q1, of "p\<lparr>raw_mp3 := Some m\<rparr>" m e io] m(1)
    obtain g where gg: "fst (convert_stage e io (p\<lparr>raw_mp3 := Some m\<rparr>, w\<lparr>files := insert m (files w)\<rparr>)) = Inr (Some g)"
      "audio_file (fst (snd (convert_stage e io (p\<lparr>raw_mp3 := Some m\<rparr>, w\<lparr>files := insert m (files w)\<rparr>)))) = Some g"
      "g \<noteq> []"
      "g \<in> files (snd (snd (convert_stage e io (p\<lparr>raw_mp3 := Some m\<rparr>, w\<lparr>files := insert m (files w)\<rparr>))))"
      "g = m \<or> g \<notin> files (w\<lparr>files := insert m (files w)\<rparr>)"
      by auto
    have fresh: "g \<notin> files w" using gg(5) m(2) by auto
    have rr: "r = Some g" using gg(1) r by (simp add: eq)
    have "r = Some g \<and> audio_file (fst (snd (gtts_stage e io t l (p, w)))) = Some g \<and>
           g \<noteq> [] \<and> g \<in> files (snd (snd (gtts_stage e io t l (p, w)))) \<and> g \<notin> files w"
      unfolding eq using rr gg(2) gg(3) gg(4) fresh by blast
    then show ?thesis by (rule exI)
  qed
qed

lemma synthesize_success:
  assumes q: "\<not> initialised w"
    and r: "fst (synthesize e io t l (p, w)) = Inr r"
  shows "\<exists>g. r = Some g \<and> audio_file (fst (snd (synthesize e io t l (p, w)))) = Some g \<and>
           g \<noteq> [] \<and> g \<in> files (snd (snd (synthesize e io t l (p, w)))) \<and> g \<notin> files w"
proof (cases "startswith l ''en'' \<and> pyttsx3_avail e \<and> \<not> gTTS_avail e")
  case False
  then have "synthesize e io t l (p, w) = gtts_stage e io t l (p, w)"
    by (auto simp: synthesize_def)
  then show ?thesis using gtts_stage_success [OF q, of e io t l p r] r by simp
next
  case True
  then have ng: "\<not> gTTS_avail e" by simp
  have nog: "\<And>p' w'. fst (gtts_stage e io t l (p', w')) = Inl GTTSNotAvailable"
    using ng by (simp add: gtts_stage_def)
  from mkstemp_cases [of "pick_offline_wav io" w] show ?thesis
  proof
    assume "mkstemp (pick_offline_wav io) w = (Inl OSError, w)"
    then have "synthesize e io t l (p, w) = gtts_stage e io t l (p, w)"
      using True by (simp add: synthesize_def)
    then show ?thesis using r nog by simp
  next
    assume "\<exists>f. pick_offline_wav io = Some f \<and> f \<noteq> [] \<and> f \<notin> files w \<and>
        mkstemp (pick_offline_wav io) w = (Inr f, w\<lparr>files := insert f (files w)\<rparr>)"
    then obtain a where a: "a \<noteq> []" "a \<notin> files w"
        "mkstemp (pick_offline_wav io) w = (Inr a, w\<lparr>files := insert a (files w)\<rparr>)" by blast
    show ?thesis
    proof (cases "pyttsx3_ok io t")
      case ok: True
      then show ?thesis using True a r by (auto simp: synthesize_def)
    next
      case False
      then have "synthesize e io t l (p, w) =
          gtts_stage e io t l (p, w\<lparr>files := insert a (files w)\<rparr>)"
        using True a by (simp add: synthesize_def)
      then show ?thesis using r nog by simp
    qed
  qed
qed

lemma not_initialised_idle:
  "\<not> initialised w \<Longrightarrow> music_get_busy w = Inl MixerError \<and> (\<forall>f. \<not> held w f)"
  by (auto simp: initialised_def music_get_busy_def held_def get_init_def
        split: option.splits mixer.splits)

text \<open>
  C2. Every call of \<open>generate\<close> is the synthesis run on the state left by lines 82-83.
  In that state the player tracks nothing, the mixer plays nothing (it is not even
  initialised, so \<open>get_busy\<close> would raise) and holds no file, and every path the player
  tracked is off storage: the teardown comes before any new file is made. When the call
  returns, the value returned is \<open>audio_file\<close>, a file that is on storage now and was
  not after the teardown; the mixer still holds nothing. The old path itself can come
  back only as the name of a new file.
\<close>

theorem generate_tears_down_first:
  "generate e io text lang s = synthesize e io text lang (torn_down e s) \<and>
   fst (torn_down e s) =
     (fst s)\<lparr>audio_file := None, raw_mp3 := None, is_playing := False, paused := False\<rparr> \<and>
   music_get_busy (snd (torn_down e s)) = Inl MixerError \<and>
   (\<forall>f. \<not> held (snd (torn_down e s)) f) \<and>
   files (snd (torn_down e s)) = files (snd s) - set (tracked_paths (fst s)) \<and>
   (fst (generate e io text lang s) = Inr r \<longrightarrow>
      (\<exists>g. r = Some g \<and> audio_file (fst (snd (generate e io text lang s))) = Some g \<and>
           g \<in> files (snd (snd (generate e io text lang s))) \<and>
           g \<notin> files (snd (torn_down e s))) \<and>
      (\<forall>f. \<not> held (snd (snd (generate e io text lang s))) f))"
proof -
  obtain p0 w0 where t: "torn_down e s = (p0, w0)" by (cases "torn_down e s")
  have gen: "generate e io text lang s = synthesize e io text lang (p0, w0)"
    by (simp add: generate_def torn_down_def [symmetric] t)
  have w0: "files w0 = files (snd s) - set (tracked_paths (fst s))" "\<not> initialised w0"
    using torn_down_world [of e s] t by simp_all
  have p0: "p0 = (fst s)\<lparr>audio_file := None, raw_mp3 := None, is_playing := False,
                 paused := False\<rparr>"
    using torn_down_player [of e s] t by simp
  have idle: "music_get_busy w0 = Inl MixerError" "\<forall>f. \<not> held w0 f"
    using not_initialised_idle [OF w0(2)] by simp_all
  have after: "\<forall>f. \<not> held (snd (snd (synthesize e io text lang (p0, w0)))) f"
    using synthesize_mixer [of e io "text" lang "(p0, w0)"] idle(2) by (simp add: held_def)
  have succ: "fst (synthesize e io text lang (p0, w0)) = Inr r \<longrightarrow>
      (\<exists>g. r = Some g \<and> audio_file (fst (snd (synthesize e io text lang (p0, w0)))) = Some g \<and>
           g \<in> files (snd (snd (synthesize e io text lang (p0, w0)))) \<and> g \<notin> files w0)"
    using synthesize_success [OF w0(2), of e io "text" lang p0 r] by blast
  show ?thesis
    unfolding gen t using p0 idle w0(1) succ after by simp
qed

lemma first_loaded_torn_down:
  "torn_down env_full first_loaded =
     (\<lparr>audio_file = None, raw_mp3 = None, is_playing = False, paused = False\<rparr>,
      \<lparr>files = {''notes.txt''}, pygame = Some NotInit, loads = 1\<rparr>)"
  by (simp add: torn_down_def stop_and_cleanup_playback_def cleanup_def first_loaded_def
        env_full_def get_init_def music_stop_def mixer_quit_def tracked_paths_def
        remove_if_exists_def os_remove_def held_def)

lemma first_loaded_generate:
  "generate env_full io_ok ''Hola'' ''es'' first_loaded =
     (Inr (Some ''tts_c.wav''),
      \<lparr>audio_file = Some ''tts_c.wav'', raw_mp3 = None, is_playing = False, paused = False\<rparr>,
      \<lparr>files = {''tts_c.wav'', ''notes.txt''}, pygame = Some NotInit, loads = 1\<rparr>)"
  unfolding generate_def torn_down_def [symmetric] first_loaded_torn_down
  by (auto simp: synthesize_def
        gtts_stage_def convert_stage_def mkstemp_def os_remove_def held_def env_full_def
        io_ok_def startswith_def Let_def)

theorem generate_tears_down_first_witness:
  "held (snd first_loaded) ''tts_old.wav'' \<and>
   ''tts_old.wav'' \<in> files (snd first_loaded) \<and>
   tracked_paths (fst first_loaded) = [''tts_old.wav''] \<and>
   ''tts_old.wav'' \<notin> files (snd (torn_down env_full first_loaded)) \<and>
   fst (generate env_full io_ok ''Hola'' ''es'' first_loaded) = Inr (Some ''tts_c.wav'') \<and>
   audio_file (fst (snd (generate env_full io_ok ''Hola'' ''es'' first_loaded))) =
     Some ''tts_c.wav'' \<and>
   ''tts_c.wav'' \<in> files (snd (snd (generate env_full io_ok ''Hola'' ''es'' first_loaded))) \<and>
   ''tts_old.wav'' \<notin> files (snd (snd (generate env_full io_ok ''Hola'' ''es'' first_loaded)))"
proof -
  have h: "held (snd first_loaded) ''tts_old.wav''"
    by (simp add: first_loaded_def held_def)
  have tp: "tracked_paths (fst first_loaded) = [''tts_old.wav'']"
    by (simp add: first_loaded_def tracked_paths_def)
  have r: "fst (generate env_full io_ok ''Hola'' ''es'' first_loaded) = Inr (Some ''tts_c.wav'')"
    by (simp add: first_loaded_generate)
  have old: "''tts_old.wav'' \<in> files (snd first_loaded)"
    by (simp add: first_loaded_def)
  show ?thesis
    using generate_tears_down_first [of env_full io_ok "''Hola''" "''es''" first_loaded
        "Some ''tts_c.wav''"] h tp r old
    by (simp add: first_loaded_generate first_loaded_torn_down)
qed

section \<open>Playing\<close>

lemma ensure_pygame_available:
  "device_available dev w \<Longrightarrow>
     \<exists>w1. ensure_pygame dev w = Inr w1 \<and> files w1 = files w \<and> loads w1 = loads w \<and>
          initialised w1"
  by (cases "pygame w")
     (auto simp: device_available_def initialised_def ensure_pygame_def get_init_def)

text \<open>
  C3. With the audio device subsystem available (pygame imported, the mixer initialised
  or able to be), \<open>play\<close> on a player whose \<open>audio_file\<close> is \<open>None\<close>, or names a
  path that is not on storage, raises the RuntimeError "No audio file to play": an
  exception returned to the caller, who shows it in a message box. The player is
  unchanged, nothing is loaded, storage is untouched.
\<close>

theorem play_without_audio:
  assumes d: "device_available dev w"
    and a: "audio_file p = None \<or> (\<exists>f. audio_file p = Some f \<and> f \<notin> files w)"
  shows "fst (play dev decodes (p, w)) = Inl NoAudioFile \<and>
         fst (snd (play dev decodes (p, w))) = p \<and>
         files (snd (snd (play dev decodes (p, w)))) = files w \<and>
         loads (snd (snd (play dev decodes (p, w)))) = loads w"
proof -
  from ensure_pygame_available [OF d]
  obtain w1 where e: "ensure_pygame dev w = Inr w1" and f: "files w1 = files w"
      and l: "loads w1 = loads w"
    by blast
  have c: "(case audio_file p of None \<Rightarrow> True | Some f \<Rightarrow> f = [] \<or> f \<notin> files w1)"
    using a f by (auto split: option.splits)
  have "play dev decodes (p, w) = (Inl NoAudioFile, p, w1)"
    using e c by (simp add: play_def)
  then show ?thesis using f l by simp
qed

theorem play_without_audio_witness:
  "device_available True (snd (boot {''notes.txt''} True)) \<and>
   audio_file (fst (boot {''notes.txt''} True)) = None \<and>
   fst (play True True (boot {''notes.txt''} True)) = Inl NoAudioFile \<and>
   audio_file (fst first_loaded) = Some ''tts_old.wav'' \<and>
   fst (play False True (fst first_loaded, (snd first_loaded)\<lparr>files := {''notes.txt''}\<rparr>))
     = Inl NoAudioFile"
proof -
  have d: "device_available True (snd (boot {''notes.txt''} True))"
    by (simp add: boot_def device_available_def)
  have a: "audio_file (fst (boot {''notes.txt''} True)) = None"
    by (simp add: boot_def TTSPlayer_init_def)
  have d2: "device_available False ((snd first_loaded)\<lparr>files := {''notes.txt''}\<rparr>)"
    by (simp add: first_loaded_def device_available_def initialised_def get_init_def)
  have a2: "audio_file (fst first_loaded) = Some ''tts_old.wav''"
    by (simp add: first_loaded_def)
  have a2': "audio_file (fst first_loaded) = None \<or>
      (\<exists>f. audio_file (fst first_loaded) = Some f \<and>
           f \<notin> files ((snd first_loaded)\<lparr>files := {''notes.txt''}\<rparr>))"
    using a2 by simp
  show ?thesis
    using play_without_audio [OF d disjI1 [OF a], of True]
      play_without_audio [OF d2 a2', of True] d a a2
    by (simp add: boot_def)
qed

section \<open>Temporary files on the failure paths\<close>

text \<open>
  C4. The claim: whenever \<open>generate\<close> raises, every temporary file made during the
  attempt is gone. The handler of lines 108-115 does that for the MP3. The handler of
  lines 95-96 does not: with gTTS missing, pyttsx3 installed and an English text,
  \<open>mkstemp\<close> makes \<open>tmp_a.wav\<close>, the engine raises, the handler prints, and line 99
  raises "gTTS not available" with \<open>tmp_a.wav\<close> on storage and tracked by nobody.
\<close>

theorem generate_offline_failure_orphans_wav:
  "fst (generate env_offline io_engine_broken ''Hello'' ''en'' (boot {} True))
     = Inl GTTSNotAvailable \<and>
   ''tmp_a.wav'' \<notin> files (snd (boot {} True)) \<and>
   files (snd (snd (generate env_offline io_engine_broken ''Hello'' ''en'' (boot {} True))))
     = {''tmp_a.wav''} \<and>
   tracked_paths (fst (snd (generate env_offline io_engine_broken ''Hello'' ''en''
     (boot {} True)))) = []"
  by (simp add: generate_def stop_and_cleanup_playback_def cleanup_def boot_def
        TTSPlayer_init_def get_init_def tracked_paths_def synthesize_def gtts_stage_def
        mkstemp_def startswith_def env_offline_def io_engine_broken_def io_ok_def)

lemma convert_stage_returns: "\<exists>r. fst (convert_stage e io s) = Inr r"
  by (cases s)
     (simp add: convert_stage_def keep_mp3_def Let_def split: prod.splits sum.splits)

lemma remove_fresh_restores:
  assumes "\<not> initialised w" "m \<noteq> []" "m \<notin> files w"
  shows "files (remove_if_exists e m (w\<lparr>files := insert m (files w)\<rparr>)) = files w"
proof -
  have q: "\<not> initialised (w\<lparr>files := insert m (files w)\<rparr>)"
    using assms(1) by (simp add: initialised_def)
  show ?thesis
    using remove_if_exists_quiet [OF q, of e m] assms(2) assms(3) by auto
qed

lemma gtts_stage_failure:
  assumes q: "\<not> initialised w"
    and r: "fst (gtts_stage e io t l (p, w)) = Inl GTTSGenerationFailed"
  shows "fst (snd (gtts_stage e io t l (p, w))) = p \<and>
         files (snd (snd (gtts_stage e io t l (p, w)))) = files w"
proof -
  have g: "gTTS_avail e" using r by (auto simp: gtts_stage_def split: if_splits)
  from mkstemp_cases [of "pick_mp3 io" w] show ?thesis
  proof
    assume "mkstemp (pick_mp3 io) w = (Inl OSError, w)"
    then show ?thesis using g by (simp add: gtts_stage_def)
  next
    assume "\<exists>f. pick_mp3 io = Some f \<and> f \<noteq> [] \<and> f \<notin> files w \<and>
        mkstemp (pick_mp3 io) w = (Inr f, w\<lparr>files := insert f (files w)\<rparr>)"
    then obtain m where m: "m \<noteq> []" "m \<notin> files w"
        "mkstemp (pick_mp3 io) w = (Inr m, w\<lparr>files := insert m (files w)\<rparr>)" by blast
    show ?thesis
    proof (cases "gtts_ok io t l")
      case True
      then have "gtts_stage e io t l (p, w) =
          convert_stage e io (p\<lparr>raw_mp3 := Some m\<rparr>, w\<lparr>files := insert m (files w)\<rparr>)"
        using g m by (simp add: gtts_stage_def)
      then show ?thesis
        using r convert_stage_returns
          [of e io "(p\<lparr>raw_mp3 := Some m\<rparr>, w\<lparr>files := insert m (files w)\<rparr>)"]
        by auto
    next
      case False
      then show ?thesis
        using g m remove_fresh_restores [OF q m(1) m(2), of e]
        by (simp add: gtts_stage_def)
    qed
  qed
qed

lemma synthesize_failure:
  assumes q: "\<not> initialised w"
    and r: "fst (synthesize e io t l (p, w)) = Inl GTTSGenerationFailed"
  shows "fst (snd (synthesize e io t l (p, w))) = p \<and>
         files (snd (snd (synthesize e io t l (p, w)))) = files w"
proof (cases "gTTS_avail e")
  case True
  then have "synthesize e io t l (p, w) = gtts_stage e io t l (p, w)"
    by (simp add: synthesize_def)
  then show ?thesis using gtts_stage_failure [OF q, of e io t l p] r by simp
next
  case False
  then have nog: "\<And>p' w'. fst (gtts_stage e io t l (p', w')) = Inl GTTSNotAvailable"
    by (simp add: gtts_stage_def)
  have "fst (synthesize e io t l (p, w)) \<noteq> Inl GTTSGenerationFailed"
    using nog by (auto simp: synthesize_def split: prod.splits sum.splits)
  then show ?thesis using r by simp
qed

section \<open>A failed regeneration\<close>

lemma play_nothing_tracked:
  "audio_file p = None \<Longrightarrow>
     (\<exists>err. fst (play dev decodes (p, w)) = Inl err) \<and>
     (device_available dev w \<longrightarrow> fst (play dev decodes (p, w)) = Inl NoAudioFile)"
  by (cases "ensure_pygame dev w")
     (auto simp: play_def dest: ensure_pygame_available)

lemma replay_nothing_tracked:
  "audio_file p = None \<Longrightarrow> \<exists>err. fst (replay dev decodes (p, w)) = Inl err"
  by (cases "ensure_pygame dev w")
     (auto simp: replay_def music_load_def Let_def split: option.splits mixer.splits sum.splits)

lemma ensure_pygame_unavailable:
  "\<not> initialised w \<Longrightarrow>
     (pygame w = None \<longrightarrow> ensure_pygame dev w = Inl PygameRequired) \<and>
     (pygame w \<noteq> None \<and> \<not> dev \<longrightarrow> ensure_pygame dev w = Inl AudioDeviceInitFailed) \<and>
     (pygame w \<noteq> None \<and> dev \<longrightarrow>
        ensure_pygame dev w = Inr (w\<lparr>pygame := Some (Init None False False)\<rparr>))"
  by (cases "pygame w") (auto simp: ensure_pygame_def initialised_def)

lemma play_no_device:
  "ensure_pygame dev w = Inl err \<Longrightarrow> fst (play dev decodes (p, w)) = Inl err"
  by (simp add: play_def)

lemma replay_no_device:
  "ensure_pygame dev w = Inl err \<Longrightarrow> fst (replay dev decodes (p, w)) = Inl err"
  by (simp add: replay_def)

lemma replay_nothing_tracked_device:
  "\<not> initialised w \<Longrightarrow> pygame w \<noteq> None \<Longrightarrow> dev \<Longrightarrow> audio_file p = None \<Longrightarrow>
     fst (replay dev decodes (p, w)) = Inl MixerError"
  using ensure_pygame_unavailable [of w dev]
  by (simp add: replay_def music_stop_def music_load_def)

lemma errors_nothing_tracked:
  assumes q: "\<not> initialised w" and a: "audio_file p = None"
  shows "(device_available dev w \<longrightarrow>
            fst (play dev decodes (p, w)) = Inl NoAudioFile \<and>
            fst (replay dev decodes (p, w)) = Inl MixerError) \<and>
         (pygame w = None \<longrightarrow>
            fst (play dev decodes (p, w)) = Inl PygameRequired \<and>
            fst (replay dev decodes (p, w)) = Inl PygameRequired) \<and>
         (pygame w \<noteq> None \<and> \<not> dev \<longrightarrow>
            fst (play dev decodes (p, w)) = Inl AudioDeviceInitFailed \<and>
            fst (replay dev decodes (p, w)) = Inl AudioDeviceInitFailed)"
proof -
  have d: "device_available dev w \<longrightarrow> pygame w \<noteq> None \<and> dev"
    using q by (simp add: device_available_def)
  show ?thesis
    using d play_nothing_tracked [OF a, of dev decodes w]
      replay_nothing_tracked_device [OF q _ _ a, of dev decodes]
      ensure_pygame_unavailable [OF q, of dev]
      play_no_device [of dev w _ decodes p] replay_no_device [of dev w _ decodes p]
    by blast
qed

text \<open>
  C10, as amended. When \<open>generate\<close> raises "gTTS generation failed", both fields are
  \<open>None\<close> and storage is what it was before the call less every path the player
  tracked: the old asset is gone, not restored. The mixer is not initialised. \<open>play\<close>
  then raises, and so does \<open>replay\<close>. \<open>ensure_pygame\<close> runs first in both (lines
  141 and 190): without pygame both raise "pygame is required", and with pygame and a
  sound device that does not open both raise "Failed to initialize audio device". When
  the audio device subsystem is available, \<open>play\<close> raises "No audio file to play" and
  \<open>replay\<close>, which has no such check, raises what \<open>load(None)\<close> raises.
\<close>

theorem generate_failure_not_atomic:
  assumes r: "fst (generate e io text lang s) = Inl GTTSGenerationFailed"
  shows "audio_file (fst (snd (generate e io text lang s))) = None \<and>
         raw_mp3 (fst (snd (generate e io text lang s))) = None \<and>
         files (snd (snd (generate e io text lang s))) =
           files (snd s) - set (tracked_paths (fst s)) \<and>
         (\<exists>err. fst (play dev decodes (snd (generate e io text lang s))) = Inl err) \<and>
         (device_available dev (snd (snd (generate e io text lang s))) \<longrightarrow>
            fst (play dev decodes (snd (generate e io text lang s))) = Inl NoAudioFile) \<and>
         (\<exists>err. fst (replay dev decodes (snd (generate e io text lang s))) = Inl err) \<and>
         \<not> initialised (snd (snd (generate e io text lang s))) \<and>
         (device_available dev (snd (snd (generate e io text lang s))) \<longrightarrow>
            fst (replay dev decodes (snd (generate e io text lang s))) = Inl MixerError) \<and>
         (pygame (snd (snd (generate e io text lang s))) = None \<longrightarrow>
            fst (play dev decodes (snd (generate e io text lang s))) = Inl PygameRequired \<and>
            fst (replay dev decodes (snd (generate e io text lang s))) = Inl PygameRequired) \<and>
         (pygame (snd (snd (generate e io text lang s))) \<noteq> None \<and> \<not> dev \<longrightarrow>
            fst (play dev decodes (snd (generate e io text lang s))) = Inl AudioDeviceInitFailed \<and>
            fst (replay dev decodes (snd (generate e io text lang s)))
              = Inl AudioDeviceInitFailed)"
proof -
  obtain p0 w0 where t: "torn_down e s = (p0, w0)" by (cases "torn_down e s")
  have gen: "generate e io text lang s = synthesize e io text lang (p0, w0)"
    by (simp add: generate_def torn_down_def [symmetric] t)
  have w0: "files w0 = files (snd s) - set (tracked_paths (fst s))" "\<not> initialised w0"
    using torn_down_world [of e s] t by simp_all
  have p0: "audio_file p0 = None" "raw_mp3 p0 = None"
    using torn_down_player [of e s] t by simp_all
  obtain p1 w1 where g1: "snd (generate e io text lang s) = (p1, w1)"
    by (cases "snd (generate e io text lang s)")
  have r': "fst (synthesize e io text lang (p0, w0)) = Inl GTTSGenerationFailed"
    using r gen by simp
  have f: "p1 = p0" "files w1 = files w0"
    using synthesize_failure [OF w0(2) r'] g1 gen by simp_all
  have a: "audio_file p1 = None" using f(1) p0(1) by simp
  have q1: "\<not> initialised w1"
    using synthesize_mixer [of e io "text" lang "(p0, w0)"] w0(2) g1 gen
    by (simp add: initialised_def)
  show ?thesis
    unfolding g1
    using a f p0 w0(1) q1 play_nothing_tracked [OF a, of dev decodes w1]
      replay_nothing_tracked [OF a, of dev decodes w1]
      errors_nothing_tracked [OF q1 a, of dev decodes]
    by simp
qed

lemma mp3_playing_reached:
  "run env_no_pydub [Generate io_ok ''Hi'' ''en'', Play True True] (boot {} True) = mp3_playing"
  by (simp add: mp3_playing_def generate_def stop_and_cleanup_playback_def cleanup_def boot_def
        TTSPlayer_init_def get_init_def tracked_paths_def synthesize_def gtts_stage_def
        convert_stage_def keep_mp3_def mkstemp_def startswith_def env_no_pydub_def io_ok_def
        play_def ensure_pygame_def music_stop_def music_load_def music_play_def)

lemma mp3_regeneration_fails:
  "generate env_no_pydub io_tts_down ''Hola'' ''es''
     mp3_playing =
     (Inl GTTSGenerationFailed,
      \<lparr>audio_file = None, raw_mp3 = None, is_playing = False, paused = False\<rparr>,
      \<lparr>files = {}, pygame = Some NotInit, loads = 1\<rparr>)"
  unfolding mp3_playing_def
  by (simp add: generate_def stop_and_cleanup_playback_def cleanup_def
        get_init_def tracked_paths_def synthesize_def gtts_stage_def music_stop_def
        mixer_quit_def remove_if_exists_def os_remove_def held_def
        mkstemp_def startswith_def env_no_pydub_def io_tts_down_def io_ok_def)

lemma mp3_without_pygame_reached:
  "snd (generate env_no_pydub io_ok ''Hi'' ''en'' (boot {} False)) = mp3_without_pygame"
  by (simp add: mp3_without_pygame_def generate_def stop_and_cleanup_playback_def cleanup_def
        boot_def TTSPlayer_init_def tracked_paths_def synthesize_def gtts_stage_def
        convert_stage_def keep_mp3_def mkstemp_def startswith_def env_no_pydub_def io_ok_def)

lemma mp3_without_pygame_regeneration_fails:
  "generate env_no_pydub io_tts_down ''Hola'' ''es'' mp3_without_pygame =
     (Inl GTTSGenerationFailed,
      \<lparr>audio_file = None, raw_mp3 = None, is_playing = False, paused = False\<rparr>,
      \<lparr>files = {}, pygame = None, loads = 0\<rparr>)"
  unfolding mp3_without_pygame_def
  by (simp add: generate_def stop_and_cleanup_playback_def cleanup_def
        tracked_paths_def synthesize_def gtts_stage_def
        remove_if_exists_def os_remove_def held_def
        mkstemp_def startswith_def env_no_pydub_def io_tts_down_def io_ok_def)

theorem generate_failure_not_atomic_witness:
  "audio_file (fst mp3_playing) = Some ''tts_b.mp3'' \<and>
   ''tts_b.mp3'' \<in> files (snd mp3_playing) \<and>
   fst (generate env_no_pydub io_tts_down ''Hola'' ''es''
      mp3_playing)
     = Inl GTTSGenerationFailed \<and>
   files (snd (snd (generate env_no_pydub io_tts_down ''Hola'' ''es''
      mp3_playing))) = {} \<and>
   fst (play True True (snd (generate env_no_pydub io_tts_down ''Hola'' ''es''
      mp3_playing)))
     = Inl NoAudioFile \<and>
   fst (replay True True (snd (generate env_no_pydub io_tts_down ''Hola'' ''es''
      mp3_playing)))
     = Inl MixerError"
proof -
  have r: "fst (generate env_no_pydub io_tts_down ''Hola'' ''es''
      mp3_playing)
     = Inl GTTSGenerationFailed"
    by (simp add: mp3_regeneration_fails)
  have d: "device_available True (snd (snd (generate env_no_pydub io_tts_down ''Hola'' ''es''
      mp3_playing)))"
    by (simp add: mp3_regeneration_fails device_available_def)
  have a: "audio_file (fst mp3_playing) = Some ''tts_b.mp3''"
    by (simp add: mp3_playing_def)
  have b: "''tts_b.mp3'' \<in> files (snd mp3_playing)"
    by (simp add: mp3_playing_def)
  have t: "tracked_paths (fst mp3_playing) = [''tts_b.mp3'', ''tts_b.mp3'']"
    by (simp add: mp3_playing_def tracked_paths_def)
  show ?thesis
    using generate_failure_not_atomic [OF r, of True True] r d a b t
    by (simp add: mp3_playing_def)
qed

text \<open>
  The claim as it stands names the exception: "a subsequent \<open>play()\<close> fails with the
  no-audio error". After one \<open>generate\<close> and one \<open>play\<close>, a regeneration fails at
  gTTS; the teardown has quit the mixer, the sound device does not open again, and
  \<open>play\<close> raises "Failed to initialize audio device", not "No audio file to play".
  On a machine without pygame the same regeneration is followed by "pygame is
  required".
\<close>

theorem regeneration_failure_device_error:
  "fst (generate env_no_pydub io_tts_down ''Hola'' ''es'' mp3_playing)
     = Inl GTTSGenerationFailed \<and>
   fst (play False True (snd (generate env_no_pydub io_tts_down ''Hola'' ''es'' mp3_playing)))
     = Inl AudioDeviceInitFailed \<and>
   fst (play False True (snd (generate env_no_pydub io_tts_down ''Hola'' ''es'' mp3_playing)))
     \<noteq> Inl NoAudioFile \<and>
   fst (generate env_no_pydub io_tts_down ''Hola'' ''es'' mp3_without_pygame)
     = Inl GTTSGenerationFailed \<and>
   fst (play True True
          (snd (generate env_no_pydub io_tts_down ''Hola'' ''es'' mp3_without_pygame)))
     = Inl PygameRequired"
proof -
  have a: "fst (play False True
      (snd (generate env_no_pydub io_tts_down ''Hola'' ''es'' mp3_playing)))
     = Inl AudioDeviceInitFailed"
    by (simp add: mp3_regeneration_fails play_def ensure_pygame_def get_init_def)
  have b: "fst (play True True
      (snd (generate env_no_pydub io_tts_down ''Hola'' ''es'' mp3_without_pygame)))
     = Inl PygameRequired"
    by (simp add: mp3_without_pygame_regeneration_fails play_def ensure_pygame_def)
  show ?thesis
    using a b by (simp add: mp3_regeneration_fails mp3_without_pygame_regeneration_fails)
qed

section \<open>Keeping the MP3\<close>

lemma convert_stage_kept:
  assumes m: "raw_mp3 p = Some m"
    and n: "\<not> (AudioSegment_avail e \<and> convert_ok io \<and>
              (case pick_wav io of None \<Rightarrow> False | Some v \<Rightarrow> v \<noteq> [] \<and> v \<notin> files w))"
  shows "fst (convert_stage e io (p, w)) = Inr (Some m) \<and>
         fst (snd (convert_stage e io (p, w))) = p\<lparr>audio_file := Some m\<rparr> \<and>
         files w \<subseteq> files (snd (snd (convert_stage e io (p, w)))) \<and>
         pygame (snd (snd (convert_stage e io (p, w)))) = pygame w \<and>
         loads (snd (snd (convert_stage e io (p, w)))) = loads w"
proof (cases "AudioSegment_avail e")
  case False
  then show ?thesis using m by (simp add: convert_stage_def keep_mp3_result)
next
  case True
  from mkstemp_cases [of "pick_wav io" w] show ?thesis
  proof
    assume "mkstemp (pick_wav io) w = (Inl OSError, w)"
    then show ?thesis using True m by (simp add: convert_stage_def keep_mp3_result)
  next
    assume "\<exists>f. pick_wav io = Some f \<and> f \<noteq> [] \<and> f \<notin> files w \<and>
        mkstemp (pick_wav io) w = (Inr f, w\<lparr>files := insert f (files w)\<rparr>)"
    then obtain v where v: "pick_wav io = Some v" "v \<noteq> []" "v \<notin> files w"
        "mkstemp (pick_wav io) w = (Inr v, w\<lparr>files := insert v (files w)\<rparr>)" by blast
    have "\<not> convert_ok io" using n True v by simp
    then show ?thesis using True m v by (auto simp: convert_stage_def keep_mp3_result)
  qed
qed

lemma play_fresh_file:
  assumes d: "device_available dev w" and q: "\<not> initialised w"
    and a: "audio_file p = Some m" "m \<noteq> []" "m \<in> files w"
  shows "play dev True (p, w) =
           (Inr (), p\<lparr>is_playing := True, paused := False\<rparr>,
            w\<lparr>pygame := Some (Init (Some m) True False), loads := Suc (loads w)\<rparr>)"
proof -
  have dv: "dev" "pygame w = Some NotInit"
    using d q
    by (auto simp: device_available_def initialised_def get_init_def
          split: option.splits mixer.splits)
  show ?thesis
    using dv a
    by (simp add: play_def ensure_pygame_def get_init_def music_stop_def music_load_def
          music_play_def)
qed

lemma play_undecodable:
  assumes d: "device_available dev w" and q: "\<not> initialised w"
    and a: "audio_file p = Some m" "m \<noteq> []" "m \<in> files w"
  shows "fst (play dev False (p, w)) = Inl PlaybackFailed \<and>
         fst (snd (play dev False (p, w))) = p"
proof -
  have dv: "dev" "pygame w = Some NotInit"
    using d q
    by (auto simp: device_available_def initialised_def get_init_def
          split: option.splits mixer.splits)
  show ?thesis
    using dv a
    by (simp add: play_def ensure_pygame_def get_init_def music_stop_def music_load_def)
qed

lemma gtts_stage_kept:
  assumes q: "\<not> initialised w"
    and g: "gTTS_avail e"
    and n: "\<not> (AudioSegment_avail e \<and> convert_ok io \<and>
              (case pick_wav io of
                 None \<Rightarrow> False
               | Some v \<Rightarrow> v \<noteq> [] \<and> Some v \<noteq> pick_mp3 io \<and> v \<notin> files w))"
    and r: "fst (gtts_stage e io t l (p, w)) = Inr r"
  shows "\<exists>m. pick_mp3 io = Some m \<and> r = Some m \<and> m \<noteq> [] \<and>
           fst (snd (gtts_stage e io t l (p, w))) = p\<lparr>raw_mp3 := Some m, audio_file := Some m\<rparr> \<and>
           m \<in> files (snd (snd (gtts_stage e io t l (p, w)))) \<and>
           pygame (snd (snd (gtts_stage e io t l (p, w)))) = pygame w \<and>
           loads (snd (snd (gtts_stage e io t l (p, w)))) = loads w"
proof -
  from mkstemp_cases [of "pick_mp3 io" w] show ?thesis
  proof
    assume "mkstemp (pick_mp3 io) w = (Inl OSError, w)"
    then show ?thesis using r g by (simp add: gtts_stage_def)
  next
    assume "\<exists>f. pick_mp3 io = Some f \<and> f \<noteq> [] \<and> f \<notin> files w \<and>
        mkstemp (pick_mp3 io) w = (Inr f, w\<lparr>files := insert f (files w)\<rparr>)"
    then obtain m where m: "pick_mp3 io = Some m" "m \<noteq> []" "m \<notin> files w"
        "mkstemp (pick_mp3 io) w = (Inr m, w\<lparr>files := insert m (files w)\<rparr>)" by blast
    have ok: "gtts_ok io t l" using r g m by (auto simp: gtts_stage_def split: if_splits)
    have eq: "gtts_stage e io t l (p, w) =
        convert_stage e io (p\<lparr>raw_mp3 := Some m\<rparr>, w\<lparr>files := insert m (files w)\<rparr>)"
      using g m ok by (simp add: gtts_stage_def)
    have n1: "\<not> (AudioSegment_avail e \<and> convert_ok io \<and>
              (case pick_wav io of None \<Rightarrow> False
               | Some v \<Rightarrow> v \<noteq> [] \<and> v \<notin> files (w\<lparr>files := insert m (files w)\<rparr>)))"
      using n m(1) by (auto split: option.splits)
    have rm: "raw_mp3 (p\<lparr>raw_mp3 := Some m\<rparr>) = Some m" by simp
    note k = convert_stage_kept [OF rm n1]
    have rr: "r = Some m" using r k by (simp add: eq)
    have "pick_mp3 io = Some m \<and> r = Some m \<and> m \<noteq> [] \<and>
           fst (snd (gtts_stage e io t l (p, w))) = p\<lparr>raw_mp3 := Some m, audio_file := Some m\<rparr> \<and>
           m \<in> files (snd (snd (gtts_stage e io t l (p, w)))) \<and>
           pygame (snd (snd (gtts_stage e io t l (p, w)))) = pygame w \<and>
           loads (snd (snd (gtts_stage e io t l (p, w)))) = loads w"
      unfolding eq using m(1) m(2) rr k by auto
    then show ?thesis by (rule exI)
  qed
qed

text \<open>
  C5, as amended. When gTTS is the backend and the conversion is unavailable or does not
  run to its end, a \<open>generate\<close> that returns returns the MP3 path; \<open>audio_file\<close> and
  \<open>_raw_mp3\<close> are both that path and the file is on storage. If the audio device
  subsystem is available and the mixer can decode the MP3, \<open>play\<close> then succeeds: the
  player is playing, not paused, and the mixer holds the MP3. If the device is available
  and the mixer cannot decode the MP3, \<open>play\<close> raises "Playback failed".
\<close>

theorem generate_keeps_mp3:
  assumes g: "gTTS_avail e"
    and nc: "\<not> conversion_succeeds e io s"
    and r: "fst (generate e io text lang s) = Inr r"
  shows "\<exists>m. pick_mp3 io = Some m \<and> r = Some m \<and>
           audio_file (fst (snd (generate e io text lang s))) = Some m \<and>
           raw_mp3 (fst (snd (generate e io text lang s))) = Some m \<and>
           m \<in> files (snd (snd (generate e io text lang s))) \<and>
           (device_available dev (snd (snd (generate e io text lang s))) \<longrightarrow>
              fst (play dev True (snd (generate e io text lang s))) = Inr () \<and>
              is_playing (fst (snd (play dev True (snd (generate e io text lang s))))) \<and>
              \<not> paused (fst (snd (play dev True (snd (generate e io text lang s))))) \<and>
              held (snd (snd (play dev True (snd (generate e io text lang s))))) m) \<and>
           (device_available dev (snd (snd (generate e io text lang s))) \<longrightarrow>
              fst (play dev False (snd (generate e io text lang s))) = Inl PlaybackFailed)"
proof -
  obtain p0 w0 where t: "torn_down e s = (p0, w0)" by (cases "torn_down e s")
  have q: "\<not> initialised w0" using torn_down_world [of e s] t by simp
  have gen: "generate e io text lang s = gtts_stage e io text lang (p0, w0)"
    using g by (simp add: generate_def torn_down_def [symmetric] t synthesize_def)
  have n: "\<not> (AudioSegment_avail e \<and> convert_ok io \<and>
              (case pick_wav io of
                 None \<Rightarrow> False
               | Some v \<Rightarrow> v \<noteq> [] \<and> Some v \<noteq> pick_mp3 io \<and> v \<notin> files w0))"
    using nc by (auto simp: conversion_succeeds_def t split: option.splits)
  have r': "fst (gtts_stage e io text lang (p0, w0)) = Inr r" using r gen by simp
  from gtts_stage_kept [OF q g n r']
  obtain m where m: "pick_mp3 io = Some m" "r = Some m" "m \<noteq> []"
      "fst (snd (gtts_stage e io text lang (p0, w0))) =
         p0\<lparr>raw_mp3 := Some m, audio_file := Some m\<rparr>"
      "m \<in> files (snd (snd (gtts_stage e io text lang (p0, w0))))"
      "pygame (snd (snd (gtts_stage e io text lang (p0, w0)))) = pygame w0"
    by blast
  obtain p1 w1 where g1: "snd (generate e io text lang s) = (p1, w1)"
    by (cases "snd (generate e io text lang s)")
  have p1: "p1 = p0\<lparr>raw_mp3 := Some m, audio_file := Some m\<rparr>"
    and w1: "m \<in> files w1" "pygame w1 = pygame w0"
    using m g1 gen by simp_all
  have q1: "\<not> initialised w1" using q w1(2) by (simp add: initialised_def)
  have a1: "audio_file p1 = Some m" using p1 by simp
  have pl: "device_available dev w1 \<longrightarrow>
      play dev True (p1, w1) =
           (Inr (), p1\<lparr>is_playing := True, paused := False\<rparr>,
            w1\<lparr>pygame := Some (Init (Some m) True False), loads := Suc (loads w1)\<rparr>)"
    using play_fresh_file [OF _ q1 a1 m(3) w1(1)] by blast
  have npl: "device_available dev w1 \<longrightarrow> fst (play dev False (p1, w1)) = Inl PlaybackFailed"
    using play_undecodable [OF _ q1 a1 m(3) w1(1)] by blast
  have "pick_mp3 io = Some m \<and> r = Some m \<and>
           audio_file (fst (snd (generate e io text lang s))) = Some m \<and>
           raw_mp3 (fst (snd (generate e io text lang s))) = Some m \<and>
           m \<in> files (snd (snd (generate e io text lang s))) \<and>
           (device_available dev (snd (snd (generate e io text lang s))) \<longrightarrow>
              fst (play dev True (snd (generate e io text lang s))) = Inr () \<and>
              is_playing (fst (snd (play dev True (snd (generate e io text lang s))))) \<and>
              \<not> paused (fst (snd (play dev True (snd (generate e io text lang s))))) \<and>
              held (snd (snd (play dev True (snd (generate e io text lang s))))) m) \<and>
           (device_available dev (snd (snd (generate e io text lang s))) \<longrightarrow>
              fst (play dev False (snd (generate e io text lang s))) = Inl PlaybackFailed)"
    unfolding g1 using m(1) m(2) p1 w1(1) pl npl by (auto simp: held_def)
  then show ?thesis by (rule exI)
qed

lemma boot_torn_down:
  "torn_down e (boot fs imported) = boot fs imported"
  by (simp add: torn_down_def stop_and_cleanup_playback_def cleanup_def boot_def
        TTSPlayer_init_def get_init_def tracked_paths_def)

lemma no_pydub_generate:
  "generate env_no_pydub io_ok ''Hi'' ''en'' (boot {} imported) =
     (Inr (Some ''tts_b.mp3''),
      \<lparr>audio_file = Some ''tts_b.mp3'', raw_mp3 = Some ''tts_b.mp3'', is_playing = False,
        paused = False\<rparr>,
      \<lparr>files = {''tts_b.mp3''}, pygame = (if imported then Some NotInit else None),
        loads = 0\<rparr>)"
  unfolding generate_def torn_down_def [symmetric] boot_torn_down
  by (simp add: boot_def TTSPlayer_init_def synthesize_def gtts_stage_def
        convert_stage_def keep_mp3_def mkstemp_def startswith_def env_no_pydub_def io_ok_def)

lemma offline_generate:
  "generate env_offline io_ok ''Hello'' ''en'' (boot {} True) =
     (Inr (Some ''tmp_a.wav''),
      \<lparr>audio_file = Some ''tmp_a.wav'', raw_mp3 = None, is_playing = False, paused = False\<rparr>,
      \<lparr>files = {''tmp_a.wav''}, pygame = Some NotInit, loads = 0\<rparr>)"
  unfolding generate_def torn_down_def [symmetric] boot_torn_down
  by (simp add: boot_def TTSPlayer_init_def synthesize_def
        mkstemp_def startswith_def env_offline_def io_ok_def)

theorem generate_keeps_mp3_witness:
  "gTTS_avail env_no_pydub \<and>
   \<not> conversion_succeeds env_no_pydub io_ok (boot {} True) \<and>
   fst (generate env_no_pydub io_ok ''Hi'' ''en'' (boot {} True)) = Inr (Some ''tts_b.mp3'') \<and>
   audio_file (fst (snd (generate env_no_pydub io_ok ''Hi'' ''en'' (boot {} True))))
     = Some ''tts_b.mp3'' \<and>
   raw_mp3 (fst (snd (generate env_no_pydub io_ok ''Hi'' ''en'' (boot {} True))))
     = Some ''tts_b.mp3'' \<and>
   device_available True (snd (snd (generate env_no_pydub io_ok ''Hi'' ''en'' (boot {} True)))) \<and>
   fst (play True True (snd (generate env_no_pydub io_ok ''Hi'' ''en'' (boot {} True))))
     = Inr ()"
proof -
  have g: "gTTS_avail env_no_pydub" by (simp add: env_no_pydub_def)
  have nc: "\<not> conversion_succeeds env_no_pydub io_ok (boot {} True)"
    by (simp add: conversion_succeeds_def env_no_pydub_def)
  have r: "fst (generate env_no_pydub io_ok ''Hi'' ''en'' (boot {} True))
      = Inr (Some ''tts_b.mp3'')"
    by (simp add: no_pydub_generate)
  have d: "device_available True
      (snd (snd (generate env_no_pydub io_ok ''Hi'' ''en'' (boot {} True))))"
    by (simp add: no_pydub_generate device_available_def)
  show ?thesis
    using generate_keeps_mp3 [OF g nc r, of True] g nc r d by auto
qed

text \<open>
  The claim as it stands: whenever the conversion is unavailable or fails, a successful
  \<open>generate\<close> returns the raw MP3 and \<open>play\<close> still succeeds. Without pydub and
  without gTTS, the offline engine answers an English text with a WAV and there is no
  MP3 at all. Without pygame, \<open>play\<close> on the MP3 raises "pygame is required". And
  with pygame and a sound device, a mixer that cannot decode the MP3 (the case pydub is
  recommended for) makes \<open>play\<close> raise "Playback failed".
\<close>

theorem conversion_absent_counterexample:
  "\<not> AudioSegment_avail env_offline \<and>
   \<not> conversion_succeeds env_offline io_ok (boot {} True) \<and>
   fst (generate env_offline io_ok ''Hello'' ''en'' (boot {} True))
     = Inr (Some ''tmp_a.wav'') \<and>
   audio_file (fst (snd (generate env_offline io_ok ''Hello'' ''en'' (boot {} True))))
     = Some ''tmp_a.wav'' \<and>
   raw_mp3 (fst (snd (generate env_offline io_ok ''Hello'' ''en'' (boot {} True)))) = None \<and>
   \<not> AudioSegment_avail env_no_pydub \<and>
   fst (generate env_no_pydub io_ok ''Hi'' ''en'' (boot {} False))
     = Inr (Some ''tts_b.mp3'') \<and>
   fst (play True True (snd (generate env_no_pydub io_ok ''Hi'' ''en'' (boot {} False))))
     = Inl PygameRequired \<and>
   device_available True (snd (snd (generate env_no_pydub io_ok ''Hi'' ''en'' (boot {} True)))) \<and>
   fst (play True False (snd (generate env_no_pydub io_ok ''Hi'' ''en'' (boot {} True))))
     = Inl PlaybackFailed"
proof -
  have a: "\<not> AudioSegment_avail env_offline" "\<not> AudioSegment_avail env_no_pydub"
    by (simp_all add: env_offline_def env_no_pydub_def)
  have c: "\<not> conversion_succeeds env_offline io_ok (boot {} True)"
    using a by (simp add: conversion_succeeds_def)
  have p: "fst (play True True (snd (generate env_no_pydub io_ok ''Hi'' ''en'' (boot {} False))))
     = Inl PygameRequired"
    by (simp add: no_pydub_generate play_def ensure_pygame_def)
  have d: "device_available True
      (snd (snd (generate env_no_pydub io_ok ''Hi'' ''en'' (boot {} True))))"
    by (simp add: no_pydub_generate device_available_def)
  have u: "fst (play True False (snd (generate env_no_pydub io_ok ''Hi'' ''en'' (boot {} True))))
     = Inl PlaybackFailed"
    by (simp add: no_pydub_generate play_def ensure_pygame_def get_init_def music_stop_def
          music_load_def)
  show ?thesis
    using a c p d u by (simp add: offline_generate no_pydub_generate)
qed

text \<open>
  The fall-back keeps more than the MP3: the WAV file that \<open>mkstemp\<close> made at line
  120 is still on storage when the conversion fails, and no field names it.
\<close>

lemma generate_conversion_failure_leaves_wav:
  "generate env_full io_convert_fails ''Hola'' ''es'' (boot {} True) =
     (Inr (Some ''tts_b.mp3''),
      \<lparr>audio_file = Some ''tts_b.mp3'', raw_mp3 = Some ''tts_b.mp3'', is_playing = False,
        paused = False\<rparr>,
      \<lparr>files = {''tts_c.wav'', ''tts_b.mp3''}, pygame = Some NotInit, loads = 0\<rparr>)"
  unfolding generate_def torn_down_def [symmetric] boot_torn_down
  by (simp add: boot_def TTSPlayer_init_def synthesize_def gtts_stage_def
        convert_stage_def keep_mp3_def mkstemp_def startswith_def env_full_def
        io_convert_fails_def io_ok_def)

section \<open>Stopping\<close>

lemma ensure_pygame_initialised:
  "ensure_pygame dev w = Inr w1 \<Longrightarrow> initialised w1"
  by (auto simp: ensure_pygame_def initialised_def get_init_def
        split: option.splits if_splits mixer.splits)

lemma ensure_pygame_keeps:
  "initialised w \<Longrightarrow> ensure_pygame dev w = Inr w"
  by (auto simp: ensure_pygame_def initialised_def split: option.splits)

lemma music_initialised:
  "music_stop w = Inr w' \<Longrightarrow> initialised w'"
  "music_load c a w = Inr w' \<Longrightarrow> initialised w'"
  "music_play w = Inr w' \<Longrightarrow> initialised w'"
  "music_pause w = Inr w' \<Longrightarrow> initialised w'"
  "music_unpause w = Inr w' \<Longrightarrow> initialised w'"
  by (auto simp: music_stop_def music_load_def music_play_def music_pause_def
        music_unpause_def initialised_def get_init_def
        split: option.splits mixer.splits if_splits)

lemma coupled_boot: "coupled (boot fs imported)"
  by (simp add: coupled_def boot_def TTSPlayer_init_def)

lemma coupled_play: "coupled s \<Longrightarrow> coupled (snd (play d c s))"
  by (cases s)
     (auto simp: coupled_def play_def Let_def
        dest: ensure_pygame_initialised music_initialised
        split: sum.splits)

lemma coupled_replay: "coupled s \<Longrightarrow> coupled (snd (replay d c s))"
  by (cases s)
     (auto simp: coupled_def replay_def Let_def
        dest: ensure_pygame_initialised music_initialised
        split: sum.splits)

lemma coupled_pause: "coupled s \<Longrightarrow> coupled (pause d s)"
  by (cases s)
     (auto simp: coupled_def pause_def pause_body_def
        dest: ensure_pygame_initialised music_initialised
        split: sum.splits if_splits)

lemma coupled_resume: "coupled s \<Longrightarrow> coupled (resume d s)"
  by (cases s)
     (auto simp: coupled_def resume_def resume_body_def
        dest: ensure_pygame_initialised music_initialised
        split: sum.splits if_splits)

lemma coupled_stop: "coupled s \<Longrightarrow> coupled (stop d s)"
  by (cases s)
     (auto simp: coupled_def stop_def stop_body_def
        dest: ensure_pygame_initialised music_initialised
        split: sum.splits)

lemma track_ends_initialised: "initialised (track_ends w) = initialised w"
  by (auto simp: track_ends_def initialised_def get_init_def split: option.splits mixer.splits)

lemma coupled_exec: "coupled s \<Longrightarrow> coupled (exec e c s)"
proof (cases c)
  case (Generate io t l)
  then show ?thesis using generate_flags [of e io t l s] by (simp add: coupled_def)
next
  case Cleanup
  then show ?thesis using cleanup_flags [of e s] by (simp add: coupled_def)
next
  case TrackEnds
  assume "coupled s"
  then show ?thesis using TrackEnds by (simp add: coupled_def track_ends_initialised)
qed (simp_all add: coupled_play coupled_replay coupled_pause coupled_resume coupled_stop)

lemma coupled_run: "coupled s \<Longrightarrow> coupled (run e cs s)"
  by (induction cs arbitrary: s) (simp_all add: coupled_exec)

lemma stop_flags:
  "coupled s \<Longrightarrow> \<not> is_playing (fst (stop d s)) \<and> \<not> paused (fst (stop d s))"
  by (cases s)
     (auto simp: coupled_def stop_def stop_body_def ensure_pygame_keeps music_stop_def
        initialised_def get_init_def
        split: sum.splits option.splits mixer.splits)

lemma stop_stop: "stop d (stop d s) = stop d s"
  by (cases s)
     (auto simp: stop_def stop_body_def ensure_pygame_def music_stop_def get_init_def
        split: sum.splits option.splits mixer.splits if_splits)

lemma stop_stopped:
  "\<not> is_playing (fst s) \<Longrightarrow> \<not> paused (fst s) \<Longrightarrow> fst (stop d s) = fst s"
  by (cases s) (auto simp: stop_def stop_body_def split: sum.splits)

text \<open>
  C6. \<open>stop\<close> returns a state and never an exception: whatever its body raises is
  caught, and the call then leaves player and world as they were (last conjunct).
  Calling it twice is calling it once (\<open>stop d (stop d s) = stop d s\<close>, for every state
  \<open>s\<close>). After \<open>stop\<close>, in any state a player can be in (any history of calls on a
  fresh player, with any answers of the collaborators), \<open>is_playing\<close> and \<open>paused\<close>
  are both False, and a second \<open>stop\<close> leaves the player as the first did even when
  the device answers differently. A flag is only ever set with the mixer initialised,
  so the body of \<open>stop\<close> cannot raise while one is set.
\<close>

theorem stop_idempotent:
  "\<not> is_playing (fst (stop d (run e cs (boot fs imported)))) \<and>
   \<not> paused (fst (stop d (run e cs (boot fs imported)))) \<and>
   fst (stop d' (stop d (run e cs (boot fs imported)))) =
     fst (stop d (run e cs (boot fs imported))) \<and>
   stop d (stop d s) = stop d s \<and>
   (stop_body d s = Inl err \<longrightarrow> stop d s = s)"
proof -
  have c: "coupled (run e cs (boot fs imported))"
    using coupled_run [OF coupled_boot] .
  note f = stop_flags [OF c, of d]
  have t: "fst (stop d' (stop d (run e cs (boot fs imported)))) =
     fst (stop d (run e cs (boot fs imported)))"
    using f by (simp add: stop_stopped)
  have n: "stop_body d s = Inl err \<longrightarrow> stop d s = s"
    by (simp add: stop_def)
  show ?thesis using f t n stop_stop [of d s] by simp
qed

theorem stop_idempotent_witness:
  "is_playing (fst mp3_playing) \<and>
   \<not> is_playing (fst (stop False mp3_playing)) \<and>
   \<not> paused (fst (stop False mp3_playing)) \<and>
   fst (stop True (stop False mp3_playing)) = fst (stop False mp3_playing) \<and>
   stop_body False (boot {} False) = Inl PygameRequired \<and>
   stop False (boot {} False) = boot {} False"
proof -
  have b: "stop_body False (boot {} False) = Inl PygameRequired"
    by (simp add: stop_body_def boot_def ensure_pygame_def)
  have a: "is_playing (fst mp3_playing)" by (simp add: mp3_playing_def)
  show ?thesis
    using stop_idempotent
      [of False env_no_pydub "[Generate io_ok ''Hi'' ''en'', Play True True]" "{}" True True
          "boot {} False" PygameRequired, unfolded mp3_playing_reached] a b
    by simp
qed

section \<open>Pausing and resuming\<close>

lemma pause_cases:
  "pause d (p, w) = (p, w) \<or>
   (\<exists>w1. pause d (p, w) = (p, w1) \<and> ensure_pygame d w = Inr w1) \<or>
   (music_get_busy w = Inr True \<and> \<not> paused p \<and>
    (\<exists>w2. music_pause w = Inr w2 \<and>
       pause d (p, w) = (p\<lparr>paused := True, is_playing := False\<rparr>, w2)))"
  by (cases "pygame w")
     (auto simp: pause_def pause_body_def ensure_pygame_def music_get_busy_def
        music_pause_def get_init_def split: mixer.splits)

lemma ensure_pygame_storage:
  "ensure_pygame d w = Inr w1 \<Longrightarrow> files w1 = files w \<and> loads w1 = loads w"
  by (auto simp: ensure_pygame_def split: option.splits if_splits)

lemma music_pause_storage:
  "music_pause w = Inr w2 \<Longrightarrow> files w2 = files w \<and> loads w2 = loads w \<and> initialised w2"
  by (auto simp: music_pause_def initialised_def get_init_def
        split: option.splits mixer.splits)

lemma resume_not_paused: "\<not> paused p \<Longrightarrow> fst (resume d (p, w)) = p"
  by (auto simp: resume_def resume_body_def split: sum.splits)

lemma resume_storage:
  "files (snd (resume d s)) = files (snd s) \<and> loads (snd (resume d s)) = loads (snd s)"
  by (cases s)
     (auto simp: resume_def resume_body_def music_unpause_def
        dest: ensure_pygame_storage split: sum.splits option.splits mixer.splits if_splits)

lemma resume_paused:
  "initialised w \<Longrightarrow> paused p \<Longrightarrow>
     fst (resume d (p, w)) = p\<lparr>paused := False, is_playing := True\<rparr>"
  by (auto simp: resume_def resume_body_def ensure_pygame_keeps music_unpause_def
        initialised_def get_init_def split: option.splits mixer.splits)

lemma pause_then_resume:
  assumes pl: "is_playing p" "\<not> paused p"
  shows "fst (resume d2 (pause d1 (p, w))) = p \<and>
         loads (snd (resume d2 (pause d1 (p, w)))) = loads w \<and>
         files (snd (resume d2 (pause d1 (p, w)))) = files w"
proof -
  from pause_cases [of d1 p w]
  consider (same) "pause d1 (p, w) = (p, w)"
    | (init) w1 where "pause d1 (p, w) = (p, w1)" "ensure_pygame d1 w = Inr w1"
    | (acts) w2 where "music_pause w = Inr w2"
        "pause d1 (p, w) = (p\<lparr>paused := True, is_playing := False\<rparr>, w2)"
    by blast
  then show ?thesis
  proof cases
    case same
    then show ?thesis
      using pl resume_not_paused [of p d2 w] resume_storage [of d2 "(p, w)"] by simp
  next
    case init
    then show ?thesis
      using pl resume_not_paused [of p d2 w1] resume_storage [of d2 "(p, w1)"]
        ensure_pygame_storage [of d1 w w1] by simp
  next
    case acts
    have restored: "p\<lparr>paused := True, is_playing := False\<rparr>\<lparr>paused := False, is_playing := True\<rparr> = p"
      using pl by (cases p) simp
    show ?thesis
      using acts music_pause_storage [OF acts(1)]
        resume_paused [of w2 "p\<lparr>paused := True, is_playing := False\<rparr>" d2]
        resume_storage [of d2 "(p\<lparr>paused := True, is_playing := False\<rparr>, w2)"] restored
      by simp
  qed
qed

text \<open>
  C7, as amended. For a player that is Playing (\<open>is_playing\<close>, not \<open>paused\<close>),
  \<open>pause\<close> followed by \<open>resume\<close> gives back the same player, with no call of
  \<open>pygame.mixer.music.load\<close> and storage untouched, whatever the device answers.
  \<open>pause\<close> leaves the player as it is unless the mixer reports busy and \<open>paused\<close>
  is False, and then it makes it Paused; it does not look at \<open>is_playing\<close>.
  \<open>resume\<close> leaves the player as it is unless \<open>paused\<close> is True.
\<close>

theorem pause_resume_round_trip:
  "(is_playing p \<and> \<not> paused p \<longrightarrow>
      fst (resume d2 (pause d1 (p, w))) = p \<and>
      loads (snd (resume d2 (pause d1 (p, w)))) = loads w \<and>
      files (snd (resume d2 (pause d1 (p, w)))) = files w) \<and>
   (fst (pause d (p, w)) = p \<or>
      (music_get_busy w = Inr True \<and> \<not> paused p \<and>
       fst (pause d (p, w)) = p\<lparr>paused := True, is_playing := False\<rparr>)) \<and>
   (\<not> paused p \<longrightarrow> fst (resume d (p, w)) = p)"
proof -
  have a: "is_playing p \<and> \<not> paused p \<longrightarrow>
      fst (resume d2 (pause d1 (p, w))) = p \<and>
      loads (snd (resume d2 (pause d1 (p, w)))) = loads w \<and>
      files (snd (resume d2 (pause d1 (p, w)))) = files w"
    using pause_then_resume [of p d2 d1 w] by blast
  have b: "fst (pause d (p, w)) = p \<or>
      (music_get_busy w = Inr True \<and> \<not> paused p \<and>
       fst (pause d (p, w)) = p\<lparr>paused := True, is_playing := False\<rparr>)"
    using pause_cases [of d p w] by auto
  have c: "\<not> paused p \<longrightarrow> fst (resume d (p, w)) = p"
    using resume_not_paused [of p d w] by blast
  from a b c show ?thesis by blast
qed

theorem pause_resume_round_trip_witness:
  "is_playing (fst mp3_playing) \<and> \<not> paused (fst mp3_playing) \<and>
   paused (fst (pause True mp3_playing)) \<and>
   fst (resume True (pause True mp3_playing)) = fst mp3_playing \<and>
   loads (snd (resume True (pause True mp3_playing))) = loads (snd mp3_playing) \<and>
   fst (resume True (boot {} True)) = fst (boot {} True)"
proof -
  have a: "is_playing (fst mp3_playing)" "\<not> paused (fst mp3_playing)"
    by (simp_all add: mp3_playing_def)
  have b: "paused (fst (pause True mp3_playing))"
    by (simp add: mp3_playing_def pause_def pause_body_def ensure_pygame_def get_init_def
          music_get_busy_def music_pause_def)
  have c: "\<not> paused (fst (boot {} True))" by (simp add: boot_def TTSPlayer_init_def)
  show ?thesis
    using pause_resume_round_trip [of "fst mp3_playing" True True "snd mp3_playing" True]
      pause_resume_round_trip [of "fst (boot {} True)" True True "snd (boot {} True)" True]
      a b c
    by simp
qed

text \<open>
  The claim as it stands: \<open>pause\<close> is a no-op unless Playing. After \<open>generate\<close>,
  \<open>play\<close> and \<open>cleanup\<close> the player is not Playing (both flags are False), but
  \<open>cleanup\<close> has not stopped the mixer, which is still busy: \<open>pause\<close> pauses it and
  sets \<open>paused\<close>.
\<close>

theorem pause_after_cleanup_counterexample:
  "\<not> is_playing (fst (cleanup env_no_pydub mp3_playing)) \<and>
   \<not> paused (fst (cleanup env_no_pydub mp3_playing)) \<and>
   paused (fst (pause True (cleanup env_no_pydub mp3_playing))) \<and>
   fst (pause True (cleanup env_no_pydub mp3_playing)) \<noteq> fst (cleanup env_no_pydub mp3_playing)"
  by (simp add: cleanup_def mp3_playing_def pause_def pause_body_def ensure_pygame_def
        get_init_def music_get_busy_def music_pause_def tracked_paths_def
        remove_if_exists_def os_remove_def env_no_pydub_def)

section \<open>Looking a word up\<close>

text \<open>
  C8. When the definitions endpoint answers with a status other than 200 (every
  non-success status is one), the body of the \<open>try\<close> raises nothing: the box shows the
  "searching" line followed by \<open>No definition found for "word".\<close> and the method
  returns at line 506. Neither the JSON decoder, nor the translator, nor the handler of
  lines 550-553 is reached.
\<close>

theorem lookup_non_200:
  assumes g: "http_get io (''https://api.dictionaryapi.dev/api/v2/entries/en/'' @ word) = Some resp"
    and s: "status_code resp \<noteq> 200"
  shows "fetch_meaning_body io word = Inr (searching word @ no_definition word) \<and>
         fetch_meaning_thread io word meaning_box = searching word @ no_definition word"
  using g s by (simp add: fetch_meaning_body_def fetch_meaning_thread_def)

theorem lookup_non_200_witness:
  "http_get lookup_404 (''https://api.dictionaryapi.dev/api/v2/entries/en/'' @ ''qwzx'')
     = Some \<lparr>status_code = 404, body = None\<rparr> \<and>
   status_code \<lparr>status_code = 404, body = None\<rparr> \<noteq> 200 \<and>
   fetch_meaning_body lookup_404 ''qwzx'' =
     Inr (searching ''qwzx'' @ no_definition ''qwzx'') \<and>
   fetch_meaning_thread lookup_404 ''qwzx'' ''old text'' =
     ''Searching meaning for '' @ quoted ''qwzx'' @ ''...'' @ nl @
     ''No definition found for '' @ quoted ''qwzx'' @ ''.'' @ nl"
proof -
  have g: "http_get lookup_404 (''https://api.dictionaryapi.dev/api/v2/entries/en/'' @ ''qwzx'')
     = Some \<lparr>status_code = 404, body = None\<rparr>"
    by (simp add: lookup_404_def)
  have s: "status_code \<lparr>status_code = 404, body = None\<rparr> \<noteq> 200" by simp
  show ?thesis
    using lookup_non_200 [OF g s, of "''old text''"] g s
    by (simp add: searching_def no_definition_def)
qed

end
